theory Spec2Isabelle
  imports Main "HOL-Library.Word"
begin

section \<open>Ignition volumes of the libvirt provider (libvirt/coreos\_ignition\_def.go)\<close>

text \<open>
  The Go file turns an Ignition payload into a storage volume of a libvirt pool and
  names the result by a compound identifier, \<^verbatim>\<open><volume key>;<uuid>\<close>.
  Go functions returning \<^verbatim>\<open>(T, error)\<close> are modelled as pairs of a value and an
  optional error, because the code returns a value (the empty string) next to every error.
\<close>

subsection \<open>Errors\<close>

text \<open>
  Every error the file builds comes from \<^verbatim>\<open>fmt.Errorf\<close>: a message. \<open>Error\<close> is
  the \<^verbatim>\<open>Error()\<close> method, which \<^verbatim>\<open>%s\<close> and \<^verbatim>\<open>%v\<close> print.
\<close>

datatype error = Errorf string

fun Error :: "error \<Rightarrow> string" where
  "Error (Errorf msg) = msg"

type_synonym 'a result = "'a \<times> error option"

subsection \<open>The pieces of package strings the identifier codec calls\<close>

text \<open>
  \<^verbatim>\<open>strings.HasPrefix(s, prefix)\<close> is
  \<^verbatim>\<open>len(s) >= len(prefix) && s[0:len(prefix)] == prefix\<close>.
\<close>

definition HasPrefix :: "string \<Rightarrow> string \<Rightarrow> bool" where
  "HasPrefix s pre = (length s \<ge> length pre \<and> take (length pre) s = pre)"

text \<open>
  \<^verbatim>\<open>strings.Index(s, substr)\<close>: the index of the first instance of \<open>substr\<close> in
  \<open>s\<close>, or \<open>-1\<close>.
\<close>

fun Index :: "string \<Rightarrow> string \<Rightarrow> int" where
  "Index [] substr = (if substr = [] then 0 else - 1)"
| "Index (c # s) substr =
     (if HasPrefix (c # s) substr then 0
      else (let i = Index s substr in if i < 0 then - 1 else i + 1))"

text \<open>
  The loop of \<^verbatim>\<open>genSplit(s, sep, 0, n)\<close>:
  \<^verbatim>\<open>
  for i < n {
      m := Index(s, sep)
      if m < 0 { break }
      a[i] = s[:m]
      s = s[m+len(sep):]
      i++
  }
  a[i] = s
  return a[:i+1]
  \<close>
  The third argument counts the iterations that are left, \<open>n - i\<close>.
\<close>

fun genSplit_loop :: "string \<Rightarrow> string \<Rightarrow> nat \<Rightarrow> string list" where
  "genSplit_loop s sep 0 = [s]"
| "genSplit_loop s sep (Suc k) =
     (let m = Index s sep in
      if m < 0 then [s]
      else take (nat m) s # genSplit_loop (drop (nat m + length sep) s) sep k)"

text \<open>
  \<^verbatim>\<open>strings.SplitN(s, sep, n)\<close> for a separator that is not empty and \<open>n \<ge> 0\<close>,
  which is how this file calls it (\<^verbatim>\<open>";"\<close> and \<open>2\<close>): no substring for
  \<open>n = 0\<close>, otherwise at most \<open>n\<close> substrings, the last one the unsplit remainder.
\<close>

definition SplitN :: "string \<Rightarrow> string \<Rightarrow> nat \<Rightarrow> string list" where
  "SplitN s sep n = (if n = 0 then [] else genSplit_loop s sep (n - 1))"

subsection \<open>The volume descriptor\<close>

text \<open>
  \<^verbatim>\<open>defVolume\<close> is declared in another file of the package. The fields this file
  assigns are \<^verbatim>\<open>Name\<close>, \<^verbatim>\<open>Capacity.Unit\<close>, \<^verbatim>\<open>Capacity.Value\<close> and
  \<^verbatim>\<open>Target.Format.Type\<close>; the capacity is a 64-bit size in bytes. The selector of
  the descriptor's name is written \<open>defVolume.Name\<close>, that of the request \<open>Name\<close>.
\<close>

record defCapacity =
  Unit :: string
  Value :: "64 word"

record defFormat =
  Type :: string

record defTarget =
  Format :: defFormat

record defVolume =
  Name :: string
  Capacity :: defCapacity
  Target :: defTarget

subsection \<open>The request\<close>

record defIgnition =
  Name :: string
  PoolName :: string
  Content :: string

definition newIgnitionDef :: defIgnition where
  "newIgnitionDef = \<lparr>defIgnition.Name = [], PoolName = [], Content = []\<rparr>"

subsection \<open>The identifier codec\<close>

text \<open>
  \<^verbatim>\<open>fmt.Sprintf("%s;%s", volumeKey, uuid.TimeOrderedUUID())\<close>. The UUID generator is
  a library outside the repository: its value on this call is the first argument.
\<close>

definition buildTerraformKey :: "string \<Rightarrow> string \<Rightarrow> string" where
  "buildTerraformKey uuid volumeKey = volumeKey @ '';'' @ uuid"

definition getIgnitionVolumeKeyFromTerraformID :: "string \<Rightarrow> string result" where
  "getIgnitionVolumeKeyFromTerraformID ident =
     (let s = SplitN ident '';'' 2 in
      if length s \<noteq> 2 then ([], Some (Errorf (ident @ '' is not a valid key'')))
      else (s ! 0, None))"

subsection \<open>The world outside the function\<close>

text \<open>
  Handles of the libvirt connection and of the image helper are numbers.
\<close>

type_synonym StoragePool = nat
type_synonym StorageVol = nat
type_synonym image = nat

text \<open>
  The calls made on the libvirt connection and on the pool lock, in the order they happen.
  \<open>Call_Lock\<close> stands for \<^verbatim>\<open>poolSync.GetLock(name)\<close> followed by
  \<^verbatim>\<open>lock.Lock()\<close>, and \<open>Call_Refresh\<close> for \<^verbatim>\<open>WaitForSuccess\<close> around
  \<^verbatim>\<open>pool.Refresh(0)\<close>, however often it retries.
\<close>

datatype event =
    Call_LookupStoragePoolByName string
  | Call_Lock string
  | Call_Unlock string
  | Call_Refresh StoragePool
  | Call_StorageVolCreateXML StoragePool string
  | Call_Import image StorageVol "64 word" defVolume
  | Call_GetKey StorageVol
  | Call_StorageVol_Free StorageVol
  | Call_StoragePool_Free StoragePool

text \<open>
  The state the functions change. On the machine the provider runs on: the files that
  \<^verbatim>\<open>os.Stat\<close> can see (path to bytes) and the lines written with package
  \<^verbatim>\<open>log\<close>; \<^verbatim>\<open>createFile\<close> touches nothing else. Beyond it: the volumes created on
  the host (handle, pool, XML descriptor) and the calls made so far.
\<close>

record local_state =
  files :: "string \<rightharpoonup> string"
  logged :: "string list"

record world =
  local :: local_state
  volumes :: "(StorageVol \<times> StoragePool \<times> string) list"
  calls :: "event list"

text \<open>
  What the collaborators answer. None of them is part of this file: the libvirt binding,
  \<^verbatim>\<open>WaitForSuccess\<close>, \<^verbatim>\<open>newDefVolume\<close>, \<^verbatim>\<open>newImage\<close> and the image's methods
  (other files of the package), \<^verbatim>\<open>encoding/json\<close>, \<^verbatim>\<open>encoding/xml\<close> and the UUID
  generator. A \<open>ret\<close> field is the value a call returns; a \<open>fault\<close> field is the
  I/O failure, if any, that the operating system injects into a file operation
  (for a write: the number of bytes written before it, and the error).

  \<open>ret_Unmarshal\<close> is the error of
  \<^verbatim>\<open>json.Unmarshal([]byte(content), &js)\<close> for \<^verbatim>\<open>js\<close> of type
  \<^verbatim>\<open>map[string]interface{}\<close>. Package \<^verbatim>\<open>encoding/json\<close> returns no error for
  a JSON object, and none for the JSON value \<^verbatim>\<open>null\<close> either, which it unmarshals
  into a map by setting the map to \<^verbatim>\<open>nil\<close>.
\<close>

record env =
  ret_LookupStoragePoolByName :: "string \<Rightarrow> error + StoragePool"
  ret_WaitForSuccess_Refresh :: "string \<Rightarrow> StoragePool \<Rightarrow> error option"
  ret_newDefVolume :: defVolume
  ret_TempFile :: "string \<Rightarrow> string \<Rightarrow> error + string"
  ret_Unmarshal :: "string \<Rightarrow> error option"
  fault_WriteString :: "string \<Rightarrow> string \<Rightarrow> (nat \<times> error) option"
  fault_Open :: "string \<Rightarrow> error option"
  fault_Copy :: "string \<Rightarrow> string \<Rightarrow> (nat \<times> error) option"
  fault_Remove :: "string \<Rightarrow> error option"
  ret_newImage :: "string \<Rightarrow> error + image"
  ret_Size :: "image \<Rightarrow> error + 64 word"
  ret_String :: "image \<Rightarrow> string"
  ret_Marshal :: "defVolume \<Rightarrow> error + string"
  ret_StorageVolCreateXML :: "StoragePool \<Rightarrow> string \<Rightarrow> error + StorageVol"
  ret_Import :: "image \<Rightarrow> StorageVol \<Rightarrow> 64 word \<Rightarrow> defVolume \<Rightarrow> error option"
  ret_GetKey :: "StorageVol \<Rightarrow> error + string"
  ret_TimeOrderedUUID :: string

definition call :: "event \<Rightarrow> world \<Rightarrow> world" where
  "call ev w = w\<lparr>calls := calls w @ [ev]\<rparr>"

definition log_Print :: "string \<Rightarrow> local_state \<Rightarrow> local_state" where
  "log_Print msg w = w\<lparr>logged := logged w @ [msg]\<rparr>"

subsection \<open>Local files\<close>

text \<open>
  \<^verbatim>\<open>ioutil.TempFile(dir, prefix)\<close> creates a new file and opens it; it never hands out
  a file that exists already (it opens with \<^verbatim>\<open>O_EXCL\<close>). The new file is empty, and
  the handle is modelled by its path, which is what \<^verbatim>\<open>tempFile.Name()\<close> returns.
\<close>

definition ioutil_TempFile ::
  "env \<Rightarrow> string \<Rightarrow> string \<Rightarrow> local_state \<Rightarrow> (error + string) \<times> local_state" where
  "ioutil_TempFile env dir pre w =
     (case ret_TempFile env dir pre of
        Inl err \<Rightarrow> (Inl err, w)
      | Inr name \<Rightarrow>
          (case files w name of
             Some bytes \<Rightarrow> (Inl (Errorf (''open '' @ name @ '': file exists'')), w)
           | None \<Rightarrow> (Inr name, w\<lparr>files := (files w)(name \<mapsto> [])\<rparr>)))"

text \<open>\<^verbatim>\<open>os.Stat(name)\<close>; the code looks at the error only.\<close>

definition os_Stat :: "string \<Rightarrow> local_state \<Rightarrow> error option" where
  "os_Stat name w =
     (case files w name of
        None \<Rightarrow> Some (Errorf (''stat '' @ name @ '': no such file or directory''))
      | Some bytes \<Rightarrow> None)"

text \<open>Bytes written through an open handle go to the end of what the file holds.\<close>

definition file_append :: "string \<Rightarrow> string \<Rightarrow> local_state \<Rightarrow> local_state" where
  "file_append name bytes w =
     w\<lparr>files := (files w)(name \<mapsto> (case files w name of None \<Rightarrow> bytes | Some old \<Rightarrow> old @ bytes))\<rparr>"

text \<open>\<^verbatim>\<open>tempFile.WriteString(s)\<close>: the number of bytes written, and an error if they are not all.\<close>

definition WriteString ::
  "env \<Rightarrow> string \<Rightarrow> string \<Rightarrow> local_state \<Rightarrow> nat result \<times> local_state" where
  "WriteString env f s w =
     (case fault_WriteString env f s of
        None \<Rightarrow> ((length s, None), file_append f s w)
      | Some (n, err) \<Rightarrow> ((min n (length s), Some err), file_append f (take n s) w))"

text \<open>\<^verbatim>\<open>os.Open(name)\<close>; the handle is modelled by the path.\<close>

definition os_Open :: "env \<Rightarrow> string \<Rightarrow> local_state \<Rightarrow> error + string" where
  "os_Open env name w =
     (case files w name of
        None \<Rightarrow> Inl (Errorf (''open '' @ name @ '': no such file or directory''))
      | Some bytes \<Rightarrow>
          (case fault_Open env name of
             Some err \<Rightarrow> Inl err
           | None \<Rightarrow> Inr name))"

text \<open>\<^verbatim>\<open>io.Copy(dst, src)\<close>: copies until the end of \<open>src\<close> or the first error.\<close>

definition io_Copy ::
  "env \<Rightarrow> string \<Rightarrow> string \<Rightarrow> local_state \<Rightarrow> nat result \<times> local_state" where
  "io_Copy env dst src w =
     (case files w src of
        None \<Rightarrow> ((0, Some (Errorf (''read '' @ src @ '': file already closed''))), w)
      | Some bytes \<Rightarrow>
          (case fault_Copy env dst src of
             None \<Rightarrow> ((length bytes, None), file_append dst bytes w)
           | Some (n, err) \<Rightarrow> ((min n (length bytes), Some err), file_append dst (take n bytes) w)))"

text \<open>\<^verbatim>\<open>os.Remove(name)\<close>.\<close>

definition os_Remove ::
  "env \<Rightarrow> string \<Rightarrow> local_state \<Rightarrow> error option \<times> local_state" where
  "os_Remove env name w =
     (case files w name of
        None \<Rightarrow> (Some (Errorf (''remove '' @ name @ '': no such file or directory'')), w)
      | Some bytes \<Rightarrow>
          (case fault_Remove env name of
             Some err \<Rightarrow> (Some err, w)
           | None \<Rightarrow> (None, w\<lparr>files := (files w)(name := None)\<rparr>)))"

subsection \<open>createFile\<close>

text \<open>
  Lines 125 to 162. The two deferred \<^verbatim>\<open>Close\<close> calls change nothing that is modelled.
  \<open>file\<close> is the source's boolean: \<^verbatim>\<open>true\<close> unless \<^verbatim>\<open>os.Stat\<close> fails; when it
  fails and the content does not unmarshal into a \<^verbatim>\<open>map[string]interface{}\<close> the
  function returns from inside the test.
\<close>

definition createFile ::
  "env \<Rightarrow> defIgnition \<Rightarrow> local_state \<Rightarrow> string result \<times> local_state" where
  "createFile env ign w0 =
     (case ioutil_TempFile env [] (defIgnition.Name ign)
             (log_Print ''Creating Ignition temporary file'' w0) of
        (Inl err, w) \<Rightarrow>
          (([], Some (Errorf (''Cannot create tmp file for Ignition: '' @ Error err))), w)
      | (Inr tempFile, w) \<Rightarrow>
          (case (case os_Stat (Content ign) w of
                   Some err \<Rightarrow>
                     (case ret_Unmarshal env (Content ign) of
                        Some err_conf \<Rightarrow>
                          Inl (Errorf (''coreos_ignition 'content' is neither a file '' @
                                       ''nor a valid json object '' @ Content ign))
                      | None \<Rightarrow> Inr False)
                 | None \<Rightarrow> Inr True) of
             Inl e \<Rightarrow> (([], Some e), w)
           | Inr file \<Rightarrow>
               if \<not> file then
                 (case WriteString env tempFile (Content ign) w of
                    ((n, Some err), w') \<Rightarrow>
                      (([], Some (Errorf (''Cannot write Ignition object to temporary '' @
                                          ''ignition file''))), w')
                  | ((n, None), w') \<Rightarrow> ((tempFile, None), w'))
               else if file then
                 (case os_Open env (Content ign) w of
                    Inl err \<Rightarrow>
                      (([], Some (Errorf (''Error opening supplied Ignition file '' @
                                          Content ign))), w)
                  | Inr ignFile \<Rightarrow>
                      (case io_Copy env tempFile ignFile w of
                         ((n, Some err), w') \<Rightarrow>
                           (([], Some (Errorf (''Error copying supplied Igition file to '' @
                                               ''temporary file: '' @ Content ign))), w')
                       | ((n, None), w') \<Rightarrow> ((tempFile, None), w')))
               else ((tempFile, None), w)))"

subsection \<open>CreateAndUpload\<close>

text \<open>
  \<^verbatim>\<open>pool.StorageVolCreateXML(xml, 0)\<close>: on success the host has one more volume.
\<close>

definition StorageVolCreateXML ::
  "env \<Rightarrow> StoragePool \<Rightarrow> string \<Rightarrow> world \<Rightarrow> (error + StorageVol) \<times> world" where
  "StorageVolCreateXML env pool xml w0 =
     (let w = call (Call_StorageVolCreateXML pool xml) w0 in
      case ret_StorageVolCreateXML env pool xml of
        Inl err \<Rightarrow> (Inl err, w)
      | Inr volume \<Rightarrow> (Inr volume, w\<lparr>volumes := volumes w @ [(volume, pool, xml)]\<rparr>))"

text \<open>
  The deferred closure of lines 61 to 66: remove the temporary file; a failure is logged.
  The closure assigns the function's local \<^verbatim>\<open>err\<close>, which is not what the function
  returns (its results have no names), so the returned pair is untouched.
\<close>

definition remove_ignFile :: "env \<Rightarrow> string \<Rightarrow> local_state \<Rightarrow> local_state" where
  "remove_ignFile env ignFile w =
     (case os_Remove env ignFile w of
        (Some err, w') \<Rightarrow> log_Print (''Error while removing tmp Ignition file: '' @ Error err) w'
      | (None, w') \<Rightarrow> w')"

text \<open>
  Lines 94 to 105: what runs once the volume exists, before the deferred
  \<^verbatim>\<open>volume.Free()\<close>. \<^verbatim>\<open>newCopier(virConn, volume, size)\<close> only builds the closure
  that \<^verbatim>\<open>img.Import\<close> runs.
\<close>

definition CreateAndUpload_volume ::
  "env \<Rightarrow> defIgnition \<Rightarrow> image \<Rightarrow> defVolume \<Rightarrow> StorageVol \<Rightarrow> world \<Rightarrow> string result \<times> world" where
  "CreateAndUpload_volume env ign img volumeDef volume w0 =
     (let w = call (Call_Import img volume (Value (Capacity volumeDef)) volumeDef) w0 in
      case ret_Import env img volume (Value (Capacity volumeDef)) volumeDef of
        Some err \<Rightarrow>
          (([], Some (Errorf (''Error while uploading ignition file '' @ ret_String env img @
                              '': '' @ Error err))), w)
      | None \<Rightarrow>
          (let w' = call (Call_GetKey volume) w in
           case ret_GetKey env volume of
             Inl err \<Rightarrow> (([], Some (Errorf (''Error retrieving volume key: '' @ Error err))), w')
           | Inr key \<Rightarrow> ((buildTerraformKey (ret_TimeOrderedUUID env) key, None), w')))"

text \<open>
  Lines 68 to 105: what runs once the temporary file exists, before the deferred removal
  (\<open>sz\<close> is the source's \<^verbatim>\<open>size\<close>).
\<close>

definition CreateAndUpload_ignFile ::
  "env \<Rightarrow> defIgnition \<Rightarrow> StoragePool \<Rightarrow> defVolume \<Rightarrow> string \<Rightarrow> world \<Rightarrow> string result \<times> world" where
  "CreateAndUpload_ignFile env ign pool volumeDef0 ignFile w =
     (case ret_newImage env ignFile of
        Inl err \<Rightarrow> (([], Some err), w)
      | Inr img \<Rightarrow>
          (case ret_Size env img of
             Inl err \<Rightarrow> (([], Some err), w)
           | Inr sz \<Rightarrow>
               (let volumeDef = volumeDef0
                      \<lparr>Capacity := (Capacity volumeDef0)\<lparr>Unit := ''B'', Value := sz\<rparr>,
                       Target := (Target volumeDef0)
                         \<lparr>Format := (Format (Target volumeDef0))\<lparr>Type := ''raw''\<rparr>\<rparr>\<rparr> in
                case ret_Marshal env volumeDef of
                  Inl err \<Rightarrow>
                    (([], Some (Errorf (''Error serializing libvirt volume: '' @ Error err))), w)
                | Inr volumeDefXml \<Rightarrow>
                    (case StorageVolCreateXML env pool volumeDefXml w of
                       (Inl err, w') \<Rightarrow>
                         (([], Some (Errorf (''Error creating libvirt volume for Ignition '' @
                                             defIgnition.Name ign @ '': '' @ Error err))), w')
                     | (Inr volume, w') \<Rightarrow>
                         (case CreateAndUpload_volume env ign img volumeDef volume w' of
                            (r, w'') \<Rightarrow> (r, call (Call_StorageVol_Free volume) w''))))))"

text \<open>
  Lines 45 to 105: what runs while the pool lock is held. The outcome of
  \<^verbatim>\<open>WaitForSuccess\<close> around \<^verbatim>\<open>pool.Refresh(0)\<close> is the collaborator's answer.
\<close>

definition CreateAndUpload_locked ::
  "env \<Rightarrow> defIgnition \<Rightarrow> StoragePool \<Rightarrow> world \<Rightarrow> string result \<times> world" where
  "CreateAndUpload_locked env ign pool w0 =
     (let w = call (Call_Refresh pool) w0 in
      case ret_WaitForSuccess_Refresh env ''Error refreshing pool for volume'' pool of
        Some err \<Rightarrow> (([], Some err), w)
      | None \<Rightarrow>
          (let volumeDef = (ret_newDefVolume env)\<lparr>defVolume.Name := defIgnition.Name ign\<rparr> in
           case createFile env ign (local w) of
             ((ignFile, Some err), l) \<Rightarrow> (([], Some err), w\<lparr>local := l\<rparr>)
           | ((ignFile, None), l) \<Rightarrow>
               (case CreateAndUpload_ignFile env ign pool volumeDef ignFile (w\<lparr>local := l\<rparr>) of
                  (r, w') \<Rightarrow> (r, w'\<lparr>local := remove_ignFile env ignFile (local w')\<rparr>))))"

text \<open>
  Lines 34 to 106. The deferred calls run when the function returns, last one first:
  \<^verbatim>\<open>lock.Unlock()\<close>, then \<^verbatim>\<open>pool.Free()\<close>.
\<close>

definition CreateAndUpload :: "env \<Rightarrow> defIgnition \<Rightarrow> world \<Rightarrow> string result \<times> world" where
  "CreateAndUpload env ign w0 =
     (let w = call (Call_LookupStoragePoolByName (PoolName ign)) w0 in
      case ret_LookupStoragePoolByName env (PoolName ign) of
        Inl err \<Rightarrow>
          (([], Some (Errorf (''can't find storage pool '' @ [CHR 0x27] @ PoolName ign @
                              [CHR 0x27] @ '': '' @ Error err))), w)
      | Inr pool \<Rightarrow>
          (case CreateAndUpload_locked env ign pool (call (Call_Lock (PoolName ign)) w) of
             (r, w') \<Rightarrow>
               (r, call (Call_StoragePool_Free pool) (call (Call_Unlock (PoolName ign)) w'))))"

subsection \<open>Abbreviations for the statements\<close>

text \<open>
  The descriptor that lines 54, 55 and 78 to 80 build for a probed size \<open>sz\<close>: the
  defaults of \<^verbatim>\<open>newDefVolume\<close> with four fields assigned.
\<close>

abbreviation volumeDef_for :: "env \<Rightarrow> defIgnition \<Rightarrow> 64 word \<Rightarrow> defVolume" where
  "volumeDef_for env ign sz \<equiv>
     (ret_newDefVolume env)
       \<lparr>defVolume.Name := defIgnition.Name ign,
        Capacity := (Capacity (ret_newDefVolume env))\<lparr>Unit := ''B'', Value := sz\<rparr>,
        Target := (Target (ret_newDefVolume env))
          \<lparr>Format := (Format (Target (ret_newDefVolume env)))\<lparr>Type := ''raw''\<rparr>\<rparr>\<rparr>"

text \<open>The calls of an execution that found the pool and made no volume.\<close>

abbreviation calls_without_volume :: "defIgnition \<Rightarrow> StoragePool \<Rightarrow> event list" where
  "calls_without_volume ign pool \<equiv>
     [Call_LookupStoragePoolByName (PoolName ign), Call_Lock (PoolName ign),
      Call_Refresh pool, Call_Unlock (PoolName ign), Call_StoragePool_Free pool]"

text \<open>An execution that returns the error \<open>err\<close>, has made no volume and no call to make one.\<close>

abbreviation returns_without_volume ::
  "env \<Rightarrow> defIgnition \<Rightarrow> world \<Rightarrow> StoragePool \<Rightarrow> error \<Rightarrow> bool" where
  "returns_without_volume env ign w pool err \<equiv>
     fst (CreateAndUpload env ign w) = ([], Some err) \<and>
     volumes (snd (CreateAndUpload env ign w)) = volumes w \<and>
     calls (snd (CreateAndUpload env ign w)) = calls w @ calls_without_volume ign pool"

subsection \<open>A concrete environment\<close>

text \<open>
  An environment to run the functions in: one pool, \<open>default\<close>; temporary files are
  named \<open>/tmp/<prefix>123456\<close>, and a prefix with a path separator is refused;
  a content unmarshals when it starts with an opening brace; no I/O failure; every
  call on the host succeeds.
\<close>

definition env_ok :: env where
  "env_ok =
     \<lparr>ret_LookupStoragePoolByName =
        (\<lambda>name. if name = ''default'' then Inr 1 else Inl (Errorf ''Storage pool not found'')),
      ret_WaitForSuccess_Refresh = (\<lambda>description pool. None),
      ret_newDefVolume =
        \<lparr>defVolume.Name = [], Capacity = \<lparr>Unit = ''bytes'', Value = 1\<rparr>,
         Target = \<lparr>Format = \<lparr>Type = ''qcow2''\<rparr>\<rparr>\<rparr>,
      ret_TempFile =
        (\<lambda>dir pre. if CHR ''/'' \<in> set pre then Inl (Errorf ''pattern contains path separator'')
                   else Inr (''/tmp/'' @ pre @ ''123456'')),
      ret_Unmarshal =
        (\<lambda>s. if take 1 s = ''{'' then None else Some (Errorf ''invalid character'')),
      fault_WriteString = (\<lambda>f s. None),
      fault_Open = (\<lambda>name. None),
      fault_Copy = (\<lambda>dst src. None),
      fault_Remove = (\<lambda>name. None),
      ret_newImage = (\<lambda>path. Inr 7),
      ret_Size = (\<lambda>img. Inr 32),
      ret_String = (\<lambda>img. ''ignition''),
      ret_Marshal = (\<lambda>volumeDef. Inr (''<volume>'' @ defVolume.Name volumeDef @ ''</volume>'')),
      ret_StorageVolCreateXML = (\<lambda>pool xml. Inr 3),
      ret_Import = (\<lambda>img volume sz volumeDef. None),
      ret_GetKey = (\<lambda>volume. Inr ''/var/lib/libvirt/images/node1''),
      ret_TimeOrderedUUID = ''5e1b3a52-0000-4000-8000-0242ac110002''\<rparr>"

text \<open>A machine with one file, and the world around it before any call.\<close>

definition local_0 :: local_state where
  "local_0 = \<lparr>files = [''/tmp/ign.json'' \<mapsto> ''{ignition:3.0.0}''], logged = []\<rparr>"

definition world_0 :: world where
  "world_0 = \<lparr>local = local_0, volumes = [], calls = []\<rparr>"

text \<open>Requests: a payload that is a file, an inline payload, and a payload that is neither.\<close>

definition ign_file :: defIgnition where
  "ign_file = \<lparr>defIgnition.Name = ''node1'', PoolName = ''default'', Content = ''/tmp/ign.json''\<rparr>"

definition ign_inline :: defIgnition where
  "ign_inline = \<lparr>defIgnition.Name = ''node1'', PoolName = ''default'', Content = ''{}''\<rparr>"

definition ign_neither :: defIgnition where
  "ign_neither =
     \<lparr>defIgnition.Name = ''node1'', PoolName = ''default'',
      Content = ''not json and not a file''\<rparr>"

text \<open>
  A request whose payload is the JSON value \<^verbatim>\<open>null\<close>, and the environment with
  \<^verbatim>\<open>json.Unmarshal\<close> answering on it as package \<^verbatim>\<open>encoding/json\<close> does.
\<close>

definition ign_null :: defIgnition where
  "ign_null = \<lparr>defIgnition.Name = ''node1'', PoolName = ''default'', Content = ''null''\<rparr>"

definition env_json_null :: env where
  "env_json_null =
     env_ok\<lparr>ret_Unmarshal :=
       (\<lambda>s. if s = ''null'' \<or> s = ''{}'' then None
            else Some (Errorf ''invalid character''))\<rparr>"

text \<open>A request for a pool that the host does not have.\<close>

definition ign_missing :: defIgnition where
  "ign_missing =
     \<lparr>defIgnition.Name = ''node1'', PoolName = ''missing'', Content = ''/tmp/ign.json''\<rparr>"

text \<open>The same environment with one step failing.\<close>

definition env_Refresh_fails :: env where
  "env_Refresh_fails =
     env_ok\<lparr>ret_WaitForSuccess_Refresh :=
       (\<lambda>description pool. Some (Errorf (description @ '': pool is busy'')))\<rparr>"

definition env_Copy_fails :: env where
  "env_Copy_fails = env_ok\<lparr>fault_Copy := (\<lambda>dst src. Some (4, Errorf ''unexpected EOF''))\<rparr>"

definition env_newImage_fails :: env where
  "env_newImage_fails = env_ok\<lparr>ret_newImage := (\<lambda>path. Inl (Errorf ''cannot open image''))\<rparr>"

definition env_Size_fails :: env where
  "env_Size_fails = env_ok\<lparr>ret_Size := (\<lambda>img. Inl (Errorf ''cannot stat image''))\<rparr>"

definition env_Marshal_fails :: env where
  "env_Marshal_fails =
     env_ok\<lparr>ret_Marshal := (\<lambda>volumeDef. Inl (Errorf ''xml: unsupported type''))\<rparr>"

definition env_Import_fails :: env where
  "env_Import_fails =
     env_ok\<lparr>ret_Import := (\<lambda>img volume sz volumeDef. Some (Errorf ''stream aborted''))\<rparr>"

definition env_GetKey_fails :: env where
  "env_GetKey_fails = env_ok\<lparr>ret_GetKey := (\<lambda>volume. Inl (Errorf ''invalid storage volume''))\<rparr>"

section \<open>Properties of the identifier codec\<close>

lemma HasPrefix_single:
  "HasPrefix (c # s) [d] = (c = d)"
  by (simp add: HasPrefix_def)

lemma Index_single_absent:
  "d \<notin> set s \<Longrightarrow> Index s [d] = - 1"
  by (induction s) (auto simp add: HasPrefix_single Let_def)

lemma Index_single_present:
  "d \<in> set s \<Longrightarrow> Index s [d] = int (length (takeWhile (\<lambda>c. c \<noteq> d) s))"
proof (induction s)
  case Nil
  then show ?case by simp
next
  case (Cons c s)
  show ?case
  proof (cases "c = d")
    case True
    then show ?thesis by (simp add: HasPrefix_single)
  next
    case False
    with Cons.prems have "d \<in> set s" by simp
    with Cons.IH False show ?thesis by (simp add: HasPrefix_single Let_def)
  qed
qed

lemma SplitN_2_absent:
  "CHR '';'' \<notin> set s \<Longrightarrow> SplitN s '';'' 2 = [s]"
  by (simp add: SplitN_def numeral_2_eq_2 Index_single_absent)

lemma SplitN_2_present:
  assumes "CHR '';'' \<in> set s"
  shows "SplitN s '';'' 2 =
    [takeWhile (\<lambda>c. c \<noteq> CHR '';'') s, tl (dropWhile (\<lambda>c. c \<noteq> CHR '';'') s)]"
proof -
  let ?n = "length (takeWhile (\<lambda>c. c \<noteq> CHR '';'') s)"
  have idx: "Index s '';'' = int ?n"
    using assms by (rule Index_single_present)
  have tk: "take ?n s = takeWhile (\<lambda>c. c \<noteq> CHR '';'') s"
    by (rule takeWhile_eq_take [symmetric])
  have dr: "drop (Suc ?n) s = tl (dropWhile (\<lambda>c. c \<noteq> CHR '';'') s)"
    by (simp add: dropWhile_eq_drop drop_Suc tl_drop)
  show ?thesis
    by (simp add: SplitN_def numeral_2_eq_2 idx tk dr)
qed

lemma decode_present:
  assumes "CHR '';'' \<in> set ident"
  shows "getIgnitionVolumeKeyFromTerraformID ident =
    (takeWhile (\<lambda>c. c \<noteq> CHR '';'') ident, None)"
  by (simp add: getIgnitionVolumeKeyFromTerraformID_def SplitN_2_present [OF assms])

lemma decode_absent:
  assumes "CHR '';'' \<notin> set ident"
  shows "getIgnitionVolumeKeyFromTerraformID ident =
    ([], Some (Errorf (ident @ '' is not a valid key'')))"
  by (simp add: getIgnitionVolumeKeyFromTerraformID_def SplitN_2_absent [OF assms])

text \<open>
  C1, as amended. Decoding an encoded key gives the key back, without error, for every
  volume key that contains no \<open>;\<close> (empty or not), whatever the UUID is: the decoder
  cuts at the first \<open>;\<close> of the identifier, which then is the one the encoder added.
\<close>

theorem decode_encode_roundtrip:
  assumes "CHR '';'' \<notin> set volumeKey"
  shows "getIgnitionVolumeKeyFromTerraformID (buildTerraformKey uuid volumeKey) =
    (volumeKey, None)"
proof -
  have "CHR '';'' \<in> set (buildTerraformKey uuid volumeKey)"
    by (simp add: buildTerraformKey_def)
  moreover have "takeWhile (\<lambda>c. c \<noteq> CHR '';'') (buildTerraformKey uuid volumeKey) = volumeKey"
    using assms unfolding buildTerraformKey_def by (induction volumeKey) auto
  ultimately show ?thesis
    by (simp add: decode_present)
qed

theorem decode_encode_roundtrip_witness:
  "CHR '';'' \<notin> set ''/var/lib/libvirt/images/node1.ign'' \<and>
   getIgnitionVolumeKeyFromTerraformID
     (buildTerraformKey ''5e1b3a52-0000-4000-8000-0242ac110002''
        ''/var/lib/libvirt/images/node1.ign'') =
   (''/var/lib/libvirt/images/node1.ign'', None)"
  using decode_encode_roundtrip [of "''/var/lib/libvirt/images/node1.ign''"
      "''5e1b3a52-0000-4000-8000-0242ac110002''"]
  by simp

text \<open>
  C1, as stated, fails for a key that contains \<open>;\<close>: the key \<open>/images/a;b\<close> is not
  empty, and decoding its identifier returns \<open>/images/a\<close>.
\<close>

theorem decode_encode_semicolon_counterexample:
  "''/images/a;b'' \<noteq> [] \<and>
   getIgnitionVolumeKeyFromTerraformID
     (buildTerraformKey ''5e1b3a52-0000-4000-8000-0242ac110002'' ''/images/a;b'') =
   (''/images/a'', None) \<and>
   ''/images/a'' \<noteq> ''/images/a;b''"
  by (simp add: decode_present buildTerraformKey_def)

text \<open>
  C2. An identifier with a \<open>;\<close> decodes, without error, to what stands before its first
  \<open>;\<close>; an identifier without one gives the empty key and the error
  \<^verbatim>\<open><id> is not a valid key\<close>.
\<close>

theorem decode_contract:
  "(CHR '';'' \<in> set ident \<longrightarrow>
      getIgnitionVolumeKeyFromTerraformID ident =
        (takeWhile (\<lambda>c. c \<noteq> CHR '';'') ident, None)) \<and>
   (CHR '';'' \<notin> set ident \<longrightarrow>
      getIgnitionVolumeKeyFromTerraformID ident =
        ([], Some (Errorf (ident @ '' is not a valid key''))))"
  by (simp add: decode_present decode_absent)

theorem decode_contract_witness:
  "getIgnitionVolumeKeyFromTerraformID ''abc123;01ef;x'' = (''abc123'', None) \<and>
   getIgnitionVolumeKeyFromTerraformID '';01ef'' = ([], None) \<and>
   getIgnitionVolumeKeyFromTerraformID ''abc123'' =
     ([], Some (Errorf ''abc123 is not a valid key''))"
  using decode_contract [of "''abc123;01ef;x''"] decode_contract [of "'';01ef''"]
    decode_contract [of "''abc123''"]
  by simp

section \<open>Properties of createFile\<close>

lemmas sample_defs =
  env_ok_def local_0_def world_0_def ign_file_def ign_inline_def ign_neither_def ign_missing_def
  ign_null_def env_json_null_def
  env_Refresh_fails_def env_Copy_fails_def env_newImage_fails_def env_Size_fails_def
  env_Marshal_fails_def env_Import_fails_def env_GetKey_fails_def

lemmas file_defs =
  createFile_def ioutil_TempFile_def os_Stat_def file_append_def WriteString_def os_Open_def
  io_Copy_def log_Print_def

lemma ioutil_TempFile_Inr:
  "ioutil_TempFile env d p l = (Inr t, l1) \<longleftrightarrow>
     ret_TempFile env d p = Inr t \<and> files l t = None \<and> l1 = l\<lparr>files := (files l)(t \<mapsto> [])\<rparr>"
  by (auto simp add: ioutil_TempFile_def split: sum.splits option.splits)




lemma file_append_dom:
  "dom (files (file_append f bytes l)) = insert f (dom (files l))"
  by (simp add: file_append_def)

lemma WriteString_dom:
  "dom (files (snd (WriteString env f s l))) = insert f (dom (files l))"
  by (simp add: WriteString_def file_append_dom split: option.splits prod.splits)

lemma io_Copy_dom:
  "dom (files l) \<subseteq> dom (files (snd (io_Copy env dst src l)))"
  by (auto simp add: io_Copy_def file_append_dom split: option.splits prod.splits)




lemma createFile_invalid:
  assumes "ioutil_TempFile env [] (defIgnition.Name ign)
             (log_Print ''Creating Ignition temporary file'' l) = (Inr tempFile, l1)"
    and "os_Stat (Content ign) l1 = Some err"
    and "ret_Unmarshal env (Content ign) = Some err_conf"
  shows "createFile env ign l =
    (([], Some (Errorf (''coreos_ignition 'content' is neither a file '' @
                        ''nor a valid json object '' @ Content ign))), l1)"
  by (simp add: createFile_def assms)

lemma createFile_json:
  assumes "ioutil_TempFile env [] (defIgnition.Name ign)
             (log_Print ''Creating Ignition temporary file'' l) = (Inr tempFile, l1)"
    and "os_Stat (Content ign) l1 = Some err"
    and "ret_Unmarshal env (Content ign) = None"
  shows "createFile env ign l =
    (case WriteString env tempFile (Content ign) l1 of
       ((n, Some err), l') \<Rightarrow>
         (([], Some (Errorf (''Cannot write Ignition object to temporary '' @
                             ''ignition file''))), l')
     | ((n, None), l') \<Rightarrow> ((tempFile, None), l'))"
  by (simp add: createFile_def assms split: prod.splits option.splits)

lemma createFile_file:
  assumes "ioutil_TempFile env [] (defIgnition.Name ign)
             (log_Print ''Creating Ignition temporary file'' l) = (Inr tempFile, l1)"
    and "os_Stat (Content ign) l1 = None"
  shows "createFile env ign l =
    (case os_Open env (Content ign) l1 of
       Inl err \<Rightarrow>
         (([], Some (Errorf (''Error opening supplied Ignition file '' @ Content ign))), l1)
     | Inr ignFile \<Rightarrow>
         (case io_Copy env tempFile ignFile l1 of
            ((n, Some err), l') \<Rightarrow>
              (([], Some (Errorf (''Error copying supplied Igition file to '' @
                                  ''temporary file: '' @ Content ign))), l')
          | ((n, None), l') \<Rightarrow> ((tempFile, None), l')))"
  by (simp add: createFile_def assms split: prod.splits option.splits sum.splits)



text \<open>Without an I/O failure \<open>createFile\<close> does return an artifact.\<close>

lemma createFile_copies_file:
  assumes "ret_TempFile env [] (defIgnition.Name ign) = Inr tempFile"
    and "files l tempFile = None"
    and "files l (Content ign) = Some bytes"
    and "fault_Open env (Content ign) = None"
    and "fault_Copy env tempFile (Content ign) = None"
  shows "fst (createFile env ign l) = (tempFile, None)"
    and "files (snd (createFile env ign l)) tempFile = Some bytes"
  using assms by (auto simp add: file_defs)

lemma createFile_writes_inline:
  assumes "ret_TempFile env [] (defIgnition.Name ign) = Inr tempFile"
    and "files l tempFile = None"
    and "files l (Content ign) = None"
    and "Content ign \<noteq> tempFile"
    and "ret_Unmarshal env (Content ign) = None"
    and "fault_WriteString env tempFile (Content ign) = None"
  shows "fst (createFile env ign l) = (tempFile, None)"
    and "files (snd (createFile env ign l)) tempFile = Some (Content ign)"
  using assms by (auto simp add: file_defs)



text \<open>
  The branch of lines 138 to 141: when the temporary file has been created, the payload
  names no file and \<^verbatim>\<open>json.Unmarshal\<close> returns an error, \<open>createFile\<close> returns the
  empty path and the error
  \<^verbatim>\<open>coreos_ignition 'content' is neither a file nor a valid json object <payload>\<close>.
\<close>

lemma createFile_rejects:
  assumes "ret_TempFile env [] (defIgnition.Name ign) = Inr tempFile"
    and "files l tempFile = None"
    and "files l (Content ign) = None"
    and "Content ign \<noteq> tempFile"
    and "ret_Unmarshal env (Content ign) = Some err_conf"
  shows "fst (createFile env ign l) =
    ([], Some (Errorf (''coreos_ignition 'content' is neither a file nor a valid json object '' @
                       Content ign)))"
proof -
  let ?l0 = "log_Print ''Creating Ignition temporary file'' l"
  let ?l1 = "?l0\<lparr>files := (files ?l0)(tempFile \<mapsto> [])\<rparr>"
  from assms(1,2) have tmp: "ioutil_TempFile env [] (defIgnition.Name ign) ?l0 = (Inr tempFile, ?l1)"
    by (simp add: ioutil_TempFile_Inr log_Print_def)
  from assms(3,4) have "os_Stat (Content ign) ?l1 =
      Some (Errorf (''stat '' @ Content ign @ '': no such file or directory''))"
    by (simp add: os_Stat_def log_Print_def)
  from createFile_invalid [OF tmp this assms(5)] show ?thesis
    by simp
qed

lemma createFile_rejects_example:
  "ret_TempFile env_ok [] (defIgnition.Name ign_neither) = Inr ''/tmp/node1123456'' \<and>
   files local_0 ''/tmp/node1123456'' = None \<and>
   files local_0 (Content ign_neither) = None \<and>
   Content ign_neither \<noteq> ''/tmp/node1123456'' \<and>
   ret_Unmarshal env_ok (Content ign_neither) = Some (Errorf ''invalid character'') \<and>
   fst (createFile env_ok ign_neither local_0) =
     ([], Some (Errorf (''coreos_ignition 'content' is neither a file nor a valid json object '' @
                        ''not json and not a file'')))"
proof -
  have hyps: "ret_TempFile env_ok [] (defIgnition.Name ign_neither) = Inr ''/tmp/node1123456''"
    "files local_0 ''/tmp/node1123456'' = None"
    "files local_0 (Content ign_neither) = None"
    "Content ign_neither \<noteq> ''/tmp/node1123456''"
    "ret_Unmarshal env_ok (Content ign_neither) = Some (Errorf ''invalid character'')"
    by (simp_all add: sample_defs)
  have "Content ign_neither = ''not json and not a file''"
    by (simp add: sample_defs)
  with createFile_rejects [OF hyps] hyps show ?thesis
    by simp
qed

text \<open>
  The temporary file is created before the payload is looked at: for the payload
  \<open>not json and not a file\<close> and a name with a path separator, the error is the one of
  \<^verbatim>\<open>ioutil.TempFile\<close>, not the one about the payload.
\<close>

lemma createFile_no_tmp_example:
  "files local_0 ''not json and not a file'' = None \<and>
   ret_Unmarshal env_ok ''not json and not a file'' \<noteq> None \<and>
   fst (createFile env_ok
          \<lparr>defIgnition.Name = ''pool/node1'', PoolName = ''default'',
           Content = ''not json and not a file''\<rparr> local_0) =
     ([], Some (Errorf ''Cannot create tmp file for Ignition: pattern contains path separator'')) \<and>
   Errorf ''Cannot create tmp file for Ignition: pattern contains path separator'' \<noteq>
     Errorf (''coreos_ignition 'content' is neither a file nor a valid json object '' @
             ''not json and not a file'')"
  by (simp add: sample_defs file_defs)

text \<open>
  C4. The code breaks the claim at the payload \<^verbatim>\<open>null\<close>. It is not the path of a
  file and it is not a JSON object, so the claim has \<open>createFile\<close> fail with the error
  whose message asks for a \<^verbatim>\<open>valid json object\<close>. But the validity test of the code is
  \<^verbatim>\<open>json.Unmarshal\<close> into a map, which returns no error on \<^verbatim>\<open>null\<close>:
  the temporary file is created, \<open>createFile\<close> writes the four bytes into it and
  returns its path with no error.
\<close>

theorem createFile_accepts_null:
  "Content ign_null = ''null'' \<and>
   files local_0 ''null'' = None \<and>
   ret_Unmarshal env_json_null ''null'' = None \<and>
   fst (createFile env_json_null ign_null local_0) = (''/tmp/node1123456'', None) \<and>
   files (snd (createFile env_json_null ign_null local_0)) ''/tmp/node1123456'' = Some ''null''"
  by (simp add: sample_defs file_defs)

section \<open>Properties of CreateAndUpload\<close>

lemma local_call [simp]: "local (call ev w) = local w"
  and volumes_call [simp]: "volumes (call ev w) = volumes w"
  and calls_call [simp]: "calls (call ev w) = calls w @ [ev]"
  by (simp_all add: call_def)

text \<open>The paths through the part after the volume's creation.\<close>

lemma volume_Import_fails:
  assumes "ret_Import env img volume (Value (Capacity volumeDef)) volumeDef = Some err"
  shows "CreateAndUpload_volume env ign img volumeDef volume w =
    (([], Some (Errorf (''Error while uploading ignition file '' @ ret_String env img @
                        '': '' @ Error err))),
     call (Call_Import img volume (Value (Capacity volumeDef)) volumeDef) w)"
  by (simp add: CreateAndUpload_volume_def assms)

lemma volume_GetKey_fails:
  assumes "ret_Import env img volume (Value (Capacity volumeDef)) volumeDef = None"
    and "ret_GetKey env volume = Inl err"
  shows "CreateAndUpload_volume env ign img volumeDef volume w =
    (([], Some (Errorf (''Error retrieving volume key: '' @ Error err))),
     call (Call_GetKey volume)
       (call (Call_Import img volume (Value (Capacity volumeDef)) volumeDef) w))"
  by (simp add: CreateAndUpload_volume_def assms)

lemma volume_done:
  assumes "ret_Import env img volume (Value (Capacity volumeDef)) volumeDef = None"
    and "ret_GetKey env volume = Inr key"
  shows "CreateAndUpload_volume env ign img volumeDef volume w =
    ((buildTerraformKey (ret_TimeOrderedUUID env) key, None),
     call (Call_GetKey volume)
       (call (Call_Import img volume (Value (Capacity volumeDef)) volumeDef) w))"
  by (simp add: CreateAndUpload_volume_def assms)

lemma volume_cases:
  obtains (Import_fails) err where
      "ret_Import env img volume (Value (Capacity volumeDef)) volumeDef = Some err"
  | (GetKey_fails) err where
      "ret_Import env img volume (Value (Capacity volumeDef)) volumeDef = None"
      "ret_GetKey env volume = Inl err"
  | (key_returned) key where
      "ret_Import env img volume (Value (Capacity volumeDef)) volumeDef = None"
      "ret_GetKey env volume = Inr key"
  by (cases "ret_Import env img volume (Value (Capacity volumeDef)) volumeDef";
      cases "ret_GetKey env volume") auto

text \<open>The paths through the part after the temporary file's creation.\<close>

lemma ignFile_newImage_fails:
  assumes "ret_newImage env ignFile = Inl err"
  shows "CreateAndUpload_ignFile env ign pool volumeDef0 ignFile w = (([], Some err), w)"
  by (simp add: CreateAndUpload_ignFile_def assms)

lemma ignFile_Size_fails:
  assumes "ret_newImage env ignFile = Inr img" and "ret_Size env img = Inl err"
  shows "CreateAndUpload_ignFile env ign pool volumeDef0 ignFile w = (([], Some err), w)"
  by (simp add: CreateAndUpload_ignFile_def assms)

lemma ignFile_Marshal_fails:
  assumes "ret_newImage env ignFile = Inr img" and "ret_Size env img = Inr sz"
    and "ret_Marshal env (volumeDef_for env ign sz) = Inl err"
  shows "CreateAndUpload_ignFile env ign pool
           ((ret_newDefVolume env)\<lparr>defVolume.Name := defIgnition.Name ign\<rparr>) ignFile w =
    (([], Some (Errorf (''Error serializing libvirt volume: '' @ Error err))), w)"
  using assms by (simp add: CreateAndUpload_ignFile_def)

lemma ignFile_Create_fails:
  assumes "ret_newImage env ignFile = Inr img" and "ret_Size env img = Inr sz"
    and "ret_Marshal env (volumeDef_for env ign sz) = Inr xml"
    and "ret_StorageVolCreateXML env pool xml = Inl err"
  shows "CreateAndUpload_ignFile env ign pool
           ((ret_newDefVolume env)\<lparr>defVolume.Name := defIgnition.Name ign\<rparr>) ignFile w =
    (([], Some (Errorf (''Error creating libvirt volume for Ignition '' @
                        defIgnition.Name ign @ '': '' @ Error err))),
     call (Call_StorageVolCreateXML pool xml) w)"
  using assms by (simp add: CreateAndUpload_ignFile_def StorageVolCreateXML_def)

lemma ignFile_Create_done:
  assumes "ret_newImage env ignFile = Inr img" and "ret_Size env img = Inr sz"
    and "ret_Marshal env (volumeDef_for env ign sz) = Inr xml"
    and "ret_StorageVolCreateXML env pool xml = Inr volume"
  shows "CreateAndUpload_ignFile env ign pool
           ((ret_newDefVolume env)\<lparr>defVolume.Name := defIgnition.Name ign\<rparr>) ignFile w =
    (let w1 = (call (Call_StorageVolCreateXML pool xml) w)
                \<lparr>volumes := volumes w @ [(volume, pool, xml)]\<rparr>;
         rw = CreateAndUpload_volume env ign img (volumeDef_for env ign sz) volume w1
     in (fst rw, call (Call_StorageVol_Free volume) (snd rw)))"
  using assms
  by (simp add: CreateAndUpload_ignFile_def StorageVolCreateXML_def Let_def split_beta)


text \<open>The paths through the part under the pool lock.\<close>

lemma locked_Refresh_fails:
  assumes "ret_WaitForSuccess_Refresh env ''Error refreshing pool for volume'' pool = Some err"
  shows "CreateAndUpload_locked env ign pool w = (([], Some err), call (Call_Refresh pool) w)"
  by (simp add: CreateAndUpload_locked_def assms)

lemma locked_createFile_fails:
  assumes "ret_WaitForSuccess_Refresh env ''Error refreshing pool for volume'' pool = None"
    and "createFile env ign (local w) = ((path, Some err), l)"
  shows "CreateAndUpload_locked env ign pool w =
    (([], Some err), (call (Call_Refresh pool) w)\<lparr>local := l\<rparr>)"
  by (simp add: CreateAndUpload_locked_def assms)

lemma locked_createFile_done:
  assumes "ret_WaitForSuccess_Refresh env ''Error refreshing pool for volume'' pool = None"
    and "createFile env ign (local w) = ((ignFile, None), l)"
  shows "CreateAndUpload_locked env ign pool w =
    (let rw = CreateAndUpload_ignFile env ign pool
                ((ret_newDefVolume env)\<lparr>defVolume.Name := defIgnition.Name ign\<rparr>) ignFile
                ((call (Call_Refresh pool) w)\<lparr>local := l\<rparr>)
     in (fst rw, (snd rw)\<lparr>local := remove_ignFile env ignFile (local (snd rw))\<rparr>))"
  by (simp add: CreateAndUpload_locked_def assms Let_def split_beta)

text \<open>The two paths through the function itself.\<close>

lemma run_Lookup_fails:
  assumes "ret_LookupStoragePoolByName env (PoolName ign) = Inl err"
  shows "CreateAndUpload env ign w =
    (([], Some (Errorf (''can't find storage pool '' @ [CHR 0x27] @ PoolName ign @
                        [CHR 0x27] @ '': '' @ Error err))),
     call (Call_LookupStoragePoolByName (PoolName ign)) w)"
  by (simp add: CreateAndUpload_def assms)

lemma Lookup_found:
  assumes "ret_LookupStoragePoolByName env (PoolName ign) = Inr pool"
  shows "CreateAndUpload env ign w =
    (let rw = CreateAndUpload_locked env ign pool
                (call (Call_Lock (PoolName ign))
                   (call (Call_LookupStoragePoolByName (PoolName ign)) w))
     in (fst rw, call (Call_StoragePool_Free pool) (call (Call_Unlock (PoolName ign)) (snd rw))))"
  by (simp add: CreateAndUpload_def assms Let_def split_beta)

lemmas block_paths =
  volume_Import_fails volume_GetKey_fails volume_done
  ignFile_newImage_fails ignFile_Size_fails ignFile_Marshal_fails ignFile_Create_fails
  ignFile_Create_done
  locked_Refresh_fails locked_createFile_fails locked_createFile_done
  run_Lookup_fails Lookup_found

lemma run_Refresh_fails:
  assumes "ret_LookupStoragePoolByName env (PoolName ign) = Inr pool"
    and "ret_WaitForSuccess_Refresh env ''Error refreshing pool for volume'' pool = Some err"
  shows "CreateAndUpload env ign w =
    (([], Some err), w\<lparr>calls := calls w @ calls_without_volume ign pool\<rparr>)"
  using assms by (simp add: block_paths Let_def call_def)

lemma run_createFile_fails:
  assumes "ret_LookupStoragePoolByName env (PoolName ign) = Inr pool"
    and "ret_WaitForSuccess_Refresh env ''Error refreshing pool for volume'' pool = None"
    and "createFile env ign (local w) = ((path, Some err), l)"
  shows "CreateAndUpload env ign w =
    (([], Some err), w\<lparr>local := l, calls := calls w @ calls_without_volume ign pool\<rparr>)"
  using assms by (simp add: block_paths Let_def call_def)

lemma run_newImage_fails:
  assumes "ret_LookupStoragePoolByName env (PoolName ign) = Inr pool"
    and "ret_WaitForSuccess_Refresh env ''Error refreshing pool for volume'' pool = None"
    and "createFile env ign (local w) = ((ignFile, None), l)"
    and "ret_newImage env ignFile = Inl err"
  shows "CreateAndUpload env ign w =
    (([], Some err),
     w\<lparr>local := remove_ignFile env ignFile l,
       calls := calls w @ calls_without_volume ign pool\<rparr>)"
  using assms by (simp add: block_paths Let_def call_def)

lemma run_Size_fails:
  assumes "ret_LookupStoragePoolByName env (PoolName ign) = Inr pool"
    and "ret_WaitForSuccess_Refresh env ''Error refreshing pool for volume'' pool = None"
    and "createFile env ign (local w) = ((ignFile, None), l)"
    and "ret_newImage env ignFile = Inr img"
    and "ret_Size env img = Inl err"
  shows "CreateAndUpload env ign w =
    (([], Some err),
     w\<lparr>local := remove_ignFile env ignFile l,
       calls := calls w @ calls_without_volume ign pool\<rparr>)"
  using assms by (simp add: block_paths Let_def call_def)

lemma run_Marshal_fails:
  assumes "ret_LookupStoragePoolByName env (PoolName ign) = Inr pool"
    and "ret_WaitForSuccess_Refresh env ''Error refreshing pool for volume'' pool = None"
    and "createFile env ign (local w) = ((ignFile, None), l)"
    and "ret_newImage env ignFile = Inr img"
    and "ret_Size env img = Inr sz"
    and "ret_Marshal env (volumeDef_for env ign sz) = Inl err"
  shows "CreateAndUpload env ign w =
    (([], Some (Errorf (''Error serializing libvirt volume: '' @ Error err))),
     w\<lparr>local := remove_ignFile env ignFile l,
       calls := calls w @ calls_without_volume ign pool\<rparr>)"
  using assms by (simp add: block_paths Let_def call_def)

lemma run_Create_fails:
  assumes "ret_LookupStoragePoolByName env (PoolName ign) = Inr pool"
    and "ret_WaitForSuccess_Refresh env ''Error refreshing pool for volume'' pool = None"
    and "createFile env ign (local w) = ((ignFile, None), l)"
    and "ret_newImage env ignFile = Inr img"
    and "ret_Size env img = Inr sz"
    and "ret_Marshal env (volumeDef_for env ign sz) = Inr xml"
    and "ret_StorageVolCreateXML env pool xml = Inl err"
  shows "CreateAndUpload env ign w =
    (([], Some (Errorf (''Error creating libvirt volume for Ignition '' @
                        defIgnition.Name ign @ '': '' @ Error err))),
     w\<lparr>local := remove_ignFile env ignFile l,
       calls := calls w @
         [Call_LookupStoragePoolByName (PoolName ign), Call_Lock (PoolName ign),
          Call_Refresh pool, Call_StorageVolCreateXML pool xml,
          Call_Unlock (PoolName ign), Call_StoragePool_Free pool]\<rparr>)"
  using assms by (simp add: block_paths Let_def call_def)

lemma run_Import_fails:
  assumes "ret_LookupStoragePoolByName env (PoolName ign) = Inr pool"
    and "ret_WaitForSuccess_Refresh env ''Error refreshing pool for volume'' pool = None"
    and "createFile env ign (local w) = ((ignFile, None), l)"
    and "ret_newImage env ignFile = Inr img"
    and "ret_Size env img = Inr sz"
    and "ret_Marshal env (volumeDef_for env ign sz) = Inr xml"
    and "ret_StorageVolCreateXML env pool xml = Inr volume"
    and "ret_Import env img volume sz (volumeDef_for env ign sz) = Some err"
  shows "CreateAndUpload env ign w =
    (([], Some (Errorf (''Error while uploading ignition file '' @ ret_String env img @
                        '': '' @ Error err))),
     w\<lparr>local := remove_ignFile env ignFile l,
       volumes := volumes w @ [(volume, pool, xml)],
       calls := calls w @
         [Call_LookupStoragePoolByName (PoolName ign), Call_Lock (PoolName ign),
          Call_Refresh pool, Call_StorageVolCreateXML pool xml,
          Call_Import img volume sz (volumeDef_for env ign sz),
          Call_StorageVol_Free volume,
          Call_Unlock (PoolName ign), Call_StoragePool_Free pool]\<rparr>)"
  using assms by (simp add: block_paths Let_def call_def)

lemma run_GetKey_fails:
  assumes "ret_LookupStoragePoolByName env (PoolName ign) = Inr pool"
    and "ret_WaitForSuccess_Refresh env ''Error refreshing pool for volume'' pool = None"
    and "createFile env ign (local w) = ((ignFile, None), l)"
    and "ret_newImage env ignFile = Inr img"
    and "ret_Size env img = Inr sz"
    and "ret_Marshal env (volumeDef_for env ign sz) = Inr xml"
    and "ret_StorageVolCreateXML env pool xml = Inr volume"
    and "ret_Import env img volume sz (volumeDef_for env ign sz) = None"
    and "ret_GetKey env volume = Inl err"
  shows "CreateAndUpload env ign w =
    (([], Some (Errorf (''Error retrieving volume key: '' @ Error err))),
     w\<lparr>local := remove_ignFile env ignFile l,
       volumes := volumes w @ [(volume, pool, xml)],
       calls := calls w @
         [Call_LookupStoragePoolByName (PoolName ign), Call_Lock (PoolName ign),
          Call_Refresh pool, Call_StorageVolCreateXML pool xml,
          Call_Import img volume sz (volumeDef_for env ign sz),
          Call_GetKey volume, Call_StorageVol_Free volume,
          Call_Unlock (PoolName ign), Call_StoragePool_Free pool]\<rparr>)"
  using assms by (simp add: block_paths Let_def call_def)

lemma run_key_returned:
  assumes "ret_LookupStoragePoolByName env (PoolName ign) = Inr pool"
    and "ret_WaitForSuccess_Refresh env ''Error refreshing pool for volume'' pool = None"
    and "createFile env ign (local w) = ((ignFile, None), l)"
    and "ret_newImage env ignFile = Inr img"
    and "ret_Size env img = Inr sz"
    and "ret_Marshal env (volumeDef_for env ign sz) = Inr xml"
    and "ret_StorageVolCreateXML env pool xml = Inr volume"
    and "ret_Import env img volume sz (volumeDef_for env ign sz) = None"
    and "ret_GetKey env volume = Inr key"
  shows "CreateAndUpload env ign w =
    ((buildTerraformKey (ret_TimeOrderedUUID env) key, None),
     w\<lparr>local := remove_ignFile env ignFile l,
       volumes := volumes w @ [(volume, pool, xml)],
       calls := calls w @
         [Call_LookupStoragePoolByName (PoolName ign), Call_Lock (PoolName ign),
          Call_Refresh pool, Call_StorageVolCreateXML pool xml,
          Call_Import img volume sz (volumeDef_for env ign sz),
          Call_GetKey volume, Call_StorageVol_Free volume,
          Call_Unlock (PoolName ign), Call_StoragePool_Free pool]\<rparr>)"
  using assms by (simp add: block_paths Let_def call_def)


lemmas runs =
  run_Lookup_fails run_Refresh_fails run_createFile_fails run_newImage_fails run_Size_fails
  run_Marshal_fails run_Create_fails run_Import_fails run_GetKey_fails run_key_returned

text \<open>Every execution takes one of eleven paths.\<close>

lemma CreateAndUpload_cases:
  obtains
    (Lookup_fails) err where
      "ret_LookupStoragePoolByName env (PoolName ign) = Inl err"
  | (Refresh_fails) pool err where
      "ret_LookupStoragePoolByName env (PoolName ign) = Inr pool"
      "ret_WaitForSuccess_Refresh env ''Error refreshing pool for volume'' pool = Some err"
  | (createFile_fails) pool path err l where
      "ret_LookupStoragePoolByName env (PoolName ign) = Inr pool"
      "ret_WaitForSuccess_Refresh env ''Error refreshing pool for volume'' pool = None"
      "createFile env ign (local w) = ((path, Some err), l)"
  | (newImage_fails) pool ignFile l err where
      "ret_LookupStoragePoolByName env (PoolName ign) = Inr pool"
      "ret_WaitForSuccess_Refresh env ''Error refreshing pool for volume'' pool = None"
      "createFile env ign (local w) = ((ignFile, None), l)"
      "ret_newImage env ignFile = Inl err"
  | (Size_fails) pool ignFile l img err where
      "ret_LookupStoragePoolByName env (PoolName ign) = Inr pool"
      "ret_WaitForSuccess_Refresh env ''Error refreshing pool for volume'' pool = None"
      "createFile env ign (local w) = ((ignFile, None), l)"
      "ret_newImage env ignFile = Inr img"
      "ret_Size env img = Inl err"
  | (Marshal_fails) pool ignFile l img sz err where
      "ret_LookupStoragePoolByName env (PoolName ign) = Inr pool"
      "ret_WaitForSuccess_Refresh env ''Error refreshing pool for volume'' pool = None"
      "createFile env ign (local w) = ((ignFile, None), l)"
      "ret_newImage env ignFile = Inr img"
      "ret_Size env img = Inr sz"
      "ret_Marshal env (volumeDef_for env ign sz) = Inl err"
  | (Create_fails) pool ignFile l img sz xml err where
      "ret_LookupStoragePoolByName env (PoolName ign) = Inr pool"
      "ret_WaitForSuccess_Refresh env ''Error refreshing pool for volume'' pool = None"
      "createFile env ign (local w) = ((ignFile, None), l)"
      "ret_newImage env ignFile = Inr img"
      "ret_Size env img = Inr sz"
      "ret_Marshal env (volumeDef_for env ign sz) = Inr xml"
      "ret_StorageVolCreateXML env pool xml = Inl err"
  | (Import_fails) pool ignFile l img sz xml volume err where
      "ret_LookupStoragePoolByName env (PoolName ign) = Inr pool"
      "ret_WaitForSuccess_Refresh env ''Error refreshing pool for volume'' pool = None"
      "createFile env ign (local w) = ((ignFile, None), l)"
      "ret_newImage env ignFile = Inr img"
      "ret_Size env img = Inr sz"
      "ret_Marshal env (volumeDef_for env ign sz) = Inr xml"
      "ret_StorageVolCreateXML env pool xml = Inr volume"
      "ret_Import env img volume sz (volumeDef_for env ign sz) = Some err"
  | (GetKey_fails) pool ignFile l img sz xml volume err where
      "ret_LookupStoragePoolByName env (PoolName ign) = Inr pool"
      "ret_WaitForSuccess_Refresh env ''Error refreshing pool for volume'' pool = None"
      "createFile env ign (local w) = ((ignFile, None), l)"
      "ret_newImage env ignFile = Inr img"
      "ret_Size env img = Inr sz"
      "ret_Marshal env (volumeDef_for env ign sz) = Inr xml"
      "ret_StorageVolCreateXML env pool xml = Inr volume"
      "ret_Import env img volume sz (volumeDef_for env ign sz) = None"
      "ret_GetKey env volume = Inl err"
  | (key_returned) pool ignFile l img sz xml volume key where
      "ret_LookupStoragePoolByName env (PoolName ign) = Inr pool"
      "ret_WaitForSuccess_Refresh env ''Error refreshing pool for volume'' pool = None"
      "createFile env ign (local w) = ((ignFile, None), l)"
      "ret_newImage env ignFile = Inr img"
      "ret_Size env img = Inr sz"
      "ret_Marshal env (volumeDef_for env ign sz) = Inr xml"
      "ret_StorageVolCreateXML env pool xml = Inr volume"
      "ret_Import env img volume sz (volumeDef_for env ign sz) = None"
      "ret_GetKey env volume = Inr key"
proof (cases "ret_LookupStoragePoolByName env (PoolName ign)")
  case (Inl err)
  then show ?thesis by (rule Lookup_fails)
next
  case f_pool: (Inr pool)
  show ?thesis
  proof (cases "ret_WaitForSuccess_Refresh env ''Error refreshing pool for volume'' pool")
    case (Some err)
    with f_pool show ?thesis by (rule Refresh_fails)
  next
    case f_refresh: None
    obtain ignFile e l where made: "createFile env ign (local w) = ((ignFile, e), l)"
      by (metis surj_pair)
    show ?thesis
    proof (cases e)
      case (Some err)
      with made have "createFile env ign (local w) = ((ignFile, Some err), l)" by simp
      with f_pool f_refresh show ?thesis by (rule createFile_fails)
    next
      case None
      with made have f_file: "createFile env ign (local w) = ((ignFile, None), l)" by simp
      note pre = f_pool f_refresh f_file
      show ?thesis
      proof (cases "ret_newImage env ignFile")
        case (Inl err)
        with pre show ?thesis by (rule newImage_fails)
      next
        case f_img: (Inr img)
        show ?thesis
        proof (cases "ret_Size env img")
          case (Inl err)
          with pre f_img show ?thesis by (rule Size_fails)
        next
          case f_sz: (Inr sz)
          show ?thesis
          proof (cases "ret_Marshal env (volumeDef_for env ign sz)")
            case (Inl err)
            with pre f_img f_sz show ?thesis by (rule Marshal_fails)
          next
            case f_xml: (Inr xml)
            show ?thesis
            proof (cases "ret_StorageVolCreateXML env pool xml")
              case (Inl err)
              with pre f_img f_sz f_xml show ?thesis by (rule Create_fails)
            next
              case f_vol: (Inr volume)
              show ?thesis
              proof (cases "ret_Import env img volume sz (volumeDef_for env ign sz)")
                case (Some err)
                with pre f_img f_sz f_xml f_vol show ?thesis by (rule Import_fails)
              next
                case f_imp: None
                show ?thesis
                proof (cases "ret_GetKey env volume")
                  case (Inl err)
                  with pre f_img f_sz f_xml f_vol f_imp show ?thesis by (rule GetKey_fails)
                next
                  case (Inr key)
                  with pre f_img f_sz f_xml f_vol f_imp show ?thesis by (rule key_returned)
                qed
              qed
            qed
          qed
        qed
      qed
    qed
  qed
qed

text \<open>The definitions to unfold when running the function on a concrete input.\<close>

lemmas run_defs =
  CreateAndUpload_def CreateAndUpload_locked_def CreateAndUpload_ignFile_def
  CreateAndUpload_volume_def StorageVolCreateXML_def remove_ignFile_def os_Remove_def
  call_def buildTerraformKey_def Let_def

text \<open>
  C5. Whatever step fails, an error comes with the empty identifier; put the other way
  round, an identifier that is not empty comes with no error.
\<close>

theorem CreateAndUpload_no_partial_identifier:
  "(snd (fst (CreateAndUpload env ign w)) \<noteq> None \<longrightarrow>
      fst (fst (CreateAndUpload env ign w)) = []) \<and>
   (fst (fst (CreateAndUpload env ign w)) \<noteq> [] \<longrightarrow>
      snd (fst (CreateAndUpload env ign w)) = None)"
  by (cases rule: CreateAndUpload_cases [where env = env and ign = ign and w = w])
    (simp_all add: runs)

theorem CreateAndUpload_no_partial_identifier_witness:
  "snd (fst (CreateAndUpload env_GetKey_fails ign_file world_0)) \<noteq> None \<and>
   fst (fst (CreateAndUpload env_GetKey_fails ign_file world_0)) = [] \<and>
   fst (fst (CreateAndUpload env_ok ign_file world_0)) \<noteq> [] \<and>
   snd (fst (CreateAndUpload env_ok ign_file world_0)) = None"
proof -
  have failing: "snd (fst (CreateAndUpload env_GetKey_fails ign_file world_0)) \<noteq> None"
    by (simp add: run_defs file_defs sample_defs)
  have succeeding: "fst (fst (CreateAndUpload env_ok ign_file world_0)) \<noteq> []"
    by (simp add: run_defs file_defs sample_defs)
  from CreateAndUpload_no_partial_identifier [of env_GetKey_fails ign_file world_0]
    CreateAndUpload_no_partial_identifier [of env_ok ign_file world_0] failing succeeding
  show ?thesis by simp
qed

text \<open>
  C6. A successful call has probed a size \<open>sz\<close> of the artifact that \<open>createFile\<close>
  returned, and has serialized a descriptor whose name is the request's name, whose capacity
  is \<open>sz\<close> with unit \<open>B\<close> and whose target format is \<open>raw\<close>; the XML that came out
  is what \<^verbatim>\<open>StorageVolCreateXML\<close> was called with, once, and the volume made from it is
  the one volume the host has more.
\<close>

theorem CreateAndUpload_descriptor:
  assumes "CreateAndUpload env ign w = ((ident, None), w')"
  shows "\<exists>pool ignFile l img sz volumeDef xml volume.
    createFile env ign (local w) = ((ignFile, None), l) \<and>
    ret_newImage env ignFile = Inr img \<and>
    ret_Size env img = Inr sz \<and>
    defVolume.Name volumeDef = defIgnition.Name ign \<and>
    Value (Capacity volumeDef) = sz \<and>
    Unit (Capacity volumeDef) = ''B'' \<and>
    Type (Format (Target volumeDef)) = ''raw'' \<and>
    ret_Marshal env volumeDef = Inr xml \<and>
    volumes w' = volumes w @ [(volume, pool, xml)] \<and>
    calls w' = calls w @
      [Call_LookupStoragePoolByName (PoolName ign), Call_Lock (PoolName ign),
       Call_Refresh pool, Call_StorageVolCreateXML pool xml,
       Call_Import img volume sz volumeDef, Call_GetKey volume, Call_StorageVol_Free volume,
       Call_Unlock (PoolName ign), Call_StoragePool_Free pool]"
proof (cases rule: CreateAndUpload_cases [where env = env and ign = ign and w = w])
  case (key_returned pool ignFile l img sz xml volume key)
  have "w' = w\<lparr>local := remove_ignFile env ignFile l,
       volumes := volumes w @ [(volume, pool, xml)],
       calls := calls w @
         [Call_LookupStoragePoolByName (PoolName ign), Call_Lock (PoolName ign),
          Call_Refresh pool, Call_StorageVolCreateXML pool xml,
          Call_Import img volume sz (volumeDef_for env ign sz),
          Call_GetKey volume, Call_StorageVol_Free volume,
          Call_Unlock (PoolName ign), Call_StoragePool_Free pool]\<rparr>"
    using assms unfolding run_key_returned [OF key_returned] by simp
  with key_returned show ?thesis
    by (intro exI [of _ pool] exI [of _ ignFile] exI [of _ l] exI [of _ img] exI [of _ sz]
        exI [of _ "volumeDef_for env ign sz"] exI [of _ xml] exI [of _ volume]) simp
qed (use assms in \<open>simp_all add: runs\<close>)


theorem CreateAndUpload_descriptor_witness:
  "CreateAndUpload env_ok ign_file world_0 =
     ((''/var/lib/libvirt/images/node1;5e1b3a52-0000-4000-8000-0242ac110002'', None),
      snd (CreateAndUpload env_ok ign_file world_0)) \<and>
   (\<exists>pool ignFile l img sz volumeDef xml volume.
      createFile env_ok ign_file (local world_0) = ((ignFile, None), l) \<and>
      ret_newImage env_ok ignFile = Inr img \<and>
      ret_Size env_ok img = Inr sz \<and>
      defVolume.Name volumeDef = defIgnition.Name ign_file \<and>
      Value (Capacity volumeDef) = sz \<and>
      Unit (Capacity volumeDef) = ''B'' \<and>
      Type (Format (Target volumeDef)) = ''raw'' \<and>
      ret_Marshal env_ok volumeDef = Inr xml \<and>
      volumes (snd (CreateAndUpload env_ok ign_file world_0)) =
        volumes world_0 @ [(volume, pool, xml)] \<and>
      calls (snd (CreateAndUpload env_ok ign_file world_0)) = calls world_0 @
        [Call_LookupStoragePoolByName (PoolName ign_file), Call_Lock (PoolName ign_file),
         Call_Refresh pool, Call_StorageVolCreateXML pool xml,
         Call_Import img volume sz volumeDef, Call_GetKey volume, Call_StorageVol_Free volume,
         Call_Unlock (PoolName ign_file), Call_StoragePool_Free pool])"
proof -
  have run: "CreateAndUpload env_ok ign_file world_0 =
     ((''/var/lib/libvirt/images/node1;5e1b3a52-0000-4000-8000-0242ac110002'', None),
      snd (CreateAndUpload env_ok ign_file world_0))"
    by (simp add: prod_eq_iff run_defs file_defs sample_defs)
  from CreateAndUpload_descriptor [OF run] run show ?thesis
    by simp
qed

text \<open>
  C7. When the pool lookup, the refresh, \<open>createFile\<close>, \<^verbatim>\<open>newImage\<close> or the size
  probe, or the serialization of the descriptor fails, the function returns that step's
  error (wrapped in a message for the lookup and the serialization) with the empty
  identifier, the host's volumes are as before, and the calls made are the lookup alone or
  lookup, lock, refresh, unlock and free: \<^verbatim>\<open>StorageVolCreateXML\<close> is not among them.
\<close>

theorem CreateAndUpload_early_failure:
  "(ret_LookupStoragePoolByName env (PoolName ign) = Inl err \<longrightarrow>
      fst (CreateAndUpload env ign w) =
        ([], Some (Errorf (''can't find storage pool '' @ [CHR 0x27] @ PoolName ign @
                           [CHR 0x27] @ '': '' @ Error err))) \<and>
      volumes (snd (CreateAndUpload env ign w)) = volumes w \<and>
      calls (snd (CreateAndUpload env ign w)) =
        calls w @ [Call_LookupStoragePoolByName (PoolName ign)]) \<and>
   (ret_LookupStoragePoolByName env (PoolName ign) = Inr pool \<longrightarrow>
      (ret_WaitForSuccess_Refresh env ''Error refreshing pool for volume'' pool = Some err \<longrightarrow>
         returns_without_volume env ign w pool err) \<and>
      (ret_WaitForSuccess_Refresh env ''Error refreshing pool for volume'' pool = None \<longrightarrow>
         (createFile env ign (local w) = ((path, Some err), l) \<longrightarrow>
            returns_without_volume env ign w pool err) \<and>
         (createFile env ign (local w) = ((ignFile, None), l) \<longrightarrow>
            (ret_newImage env ignFile = Inl err \<longrightarrow>
               returns_without_volume env ign w pool err) \<and>
            (ret_newImage env ignFile = Inr img \<longrightarrow>
               (ret_Size env img = Inl err \<longrightarrow>
                  returns_without_volume env ign w pool err) \<and>
               (ret_Size env img = Inr sz \<longrightarrow>
                ret_Marshal env (volumeDef_for env ign sz) = Inl err \<longrightarrow>
                  returns_without_volume env ign w pool
                    (Errorf (''Error serializing libvirt volume: '' @ Error err)))))))"
  by (simp add: run_Lookup_fails run_Refresh_fails run_createFile_fails run_newImage_fails
      run_Size_fails run_Marshal_fails)

theorem CreateAndUpload_early_failure_witness:
  "ret_LookupStoragePoolByName env_ok (PoolName ign_missing) =
     Inl (Errorf ''Storage pool not found'') \<and>
   fst (CreateAndUpload env_ok ign_missing world_0) =
     ([], Some (Errorf (''can't find storage pool '' @ [CHR 0x27] @ ''missing'' @
                        [CHR 0x27] @ '': Storage pool not found''))) \<and>
   volumes (snd (CreateAndUpload env_ok ign_missing world_0)) = volumes world_0 \<and>
   calls (snd (CreateAndUpload env_ok ign_missing world_0)) =
     calls world_0 @ [Call_LookupStoragePoolByName ''missing''] \<and>
   ret_LookupStoragePoolByName env_Refresh_fails (PoolName ign_file) = Inr 1 \<and>
   ret_WaitForSuccess_Refresh env_Refresh_fails ''Error refreshing pool for volume'' 1 =
     Some (Errorf ''Error refreshing pool for volume: pool is busy'') \<and>
   returns_without_volume env_Refresh_fails ign_file world_0 1
     (Errorf ''Error refreshing pool for volume: pool is busy'') \<and>
   createFile env_ok ign_neither (local world_0) =
     (([], Some (Errorf (''coreos_ignition 'content' is neither a file nor a valid json '' @
                         ''object not json and not a file''))),
      snd (createFile env_ok ign_neither (local world_0))) \<and>
   returns_without_volume env_ok ign_neither world_0 1
     (Errorf (''coreos_ignition 'content' is neither a file nor a valid json '' @
              ''object not json and not a file'')) \<and>
   createFile env_newImage_fails ign_file (local world_0) =
     ((''/tmp/node1123456'', None), snd (createFile env_newImage_fails ign_file (local world_0))) \<and>
   ret_newImage env_newImage_fails ''/tmp/node1123456'' = Inl (Errorf ''cannot open image'') \<and>
   returns_without_volume env_newImage_fails ign_file world_0 1 (Errorf ''cannot open image'') \<and>
   ret_newImage env_Size_fails ''/tmp/node1123456'' = Inr 7 \<and>
   ret_Size env_Size_fails 7 = Inl (Errorf ''cannot stat image'') \<and>
   returns_without_volume env_Size_fails ign_file world_0 1 (Errorf ''cannot stat image'') \<and>
   ret_Size env_Marshal_fails 7 = Inr 32 \<and>
   ret_Marshal env_Marshal_fails (volumeDef_for env_Marshal_fails ign_file 32) =
     Inl (Errorf ''xml: unsupported type'') \<and>
   returns_without_volume env_Marshal_fails ign_file world_0 1
     (Errorf ''Error serializing libvirt volume: xml: unsupported type'')"
proof -
  have lookup: "ret_LookupStoragePoolByName env_ok (PoolName ign_missing) =
      Inl (Errorf ''Storage pool not found'')"
    by (simp add: sample_defs)
  have found: "ret_LookupStoragePoolByName env (PoolName ign) = Inr 1"
    if "env \<in> {env_ok, env_Refresh_fails, env_newImage_fails, env_Size_fails, env_Marshal_fails}"
      and "ign \<in> {ign_file, ign_neither}" for env ign
    using that by (auto simp add: sample_defs)
  have refresh: "ret_WaitForSuccess_Refresh env_Refresh_fails
      ''Error refreshing pool for volume'' 1 =
      Some (Errorf ''Error refreshing pool for volume: pool is busy'')"
    by (simp add: sample_defs)
  have refreshed: "ret_WaitForSuccess_Refresh env ''Error refreshing pool for volume'' 1 = None"
    if "env \<in> {env_ok, env_newImage_fails, env_Size_fails, env_Marshal_fails}" for env
    using that by (auto simp add: sample_defs)
  have rejected: "createFile env_ok ign_neither (local world_0) =
     (([], Some (Errorf (''coreos_ignition 'content' is neither a file nor a valid json '' @
                         ''object not json and not a file''))),
      snd (createFile env_ok ign_neither (local world_0)))"
    by (simp add: prod_eq_iff file_defs sample_defs)
  have written: "createFile env ign_file (local world_0) =
     ((''/tmp/node1123456'', None), snd (createFile env ign_file (local world_0)))"
    if "env \<in> {env_newImage_fails, env_Size_fails, env_Marshal_fails}" for env
    using that by (auto simp add: prod_eq_iff file_defs sample_defs)
  have newImage: "ret_newImage env_newImage_fails ''/tmp/node1123456'' =
      Inl (Errorf ''cannot open image'')"
    "ret_newImage env_Size_fails ''/tmp/node1123456'' = Inr 7"
    "ret_newImage env_Marshal_fails ''/tmp/node1123456'' = Inr 7"
    by (simp_all add: sample_defs)
  have Size: "ret_Size env_Size_fails 7 = Inl (Errorf ''cannot stat image'')"
    "ret_Size env_Marshal_fails 7 = Inr 32"
    by (simp_all add: sample_defs)
  have Marshal: "ret_Marshal env_Marshal_fails (volumeDef_for env_Marshal_fails ign_file 32) =
      Inl (Errorf ''xml: unsupported type'')"
    by (simp add: sample_defs)
  have name: "PoolName ign_missing = ''missing''"
    by (simp add: sample_defs)
  note inst = CreateAndUpload_early_failure [where w = world_0 and pool = 1 and img = 7 and sz = 32]
  from inst [where env = env_ok and ign = ign_missing
      and err = "Errorf ''Storage pool not found''"] lookup name
  have c1: "fst (CreateAndUpload env_ok ign_missing world_0) =
     ([], Some (Errorf (''can't find storage pool '' @ [CHR 0x27] @ ''missing'' @
                        [CHR 0x27] @ '': Storage pool not found''))) \<and>
   volumes (snd (CreateAndUpload env_ok ign_missing world_0)) = volumes world_0 \<and>
   calls (snd (CreateAndUpload env_ok ign_missing world_0)) =
     calls world_0 @ [Call_LookupStoragePoolByName ''missing'']"
    by simp
  from inst [where env = env_Refresh_fails and ign = ign_file
      and err = "Errorf ''Error refreshing pool for volume: pool is busy''"] found refresh
  have c2: "returns_without_volume env_Refresh_fails ign_file world_0 1
     (Errorf ''Error refreshing pool for volume: pool is busy'')"
    by simp
  from inst [where env = env_ok and ign = ign_neither and path = "[]"
      and l = "snd (createFile env_ok ign_neither (local world_0))"
      and err = "Errorf (''coreos_ignition 'content' is neither a file nor a valid json '' @
              ''object not json and not a file'')"] found refreshed rejected
  have c3: "returns_without_volume env_ok ign_neither world_0 1
     (Errorf (''coreos_ignition 'content' is neither a file nor a valid json '' @
              ''object not json and not a file''))"
    by simp
  from inst [where env = env_newImage_fails and ign = ign_file and ignFile = "''/tmp/node1123456''"
      and l = "snd (createFile env_newImage_fails ign_file (local world_0))"
      and err = "Errorf ''cannot open image''"] found refreshed written newImage
  have c4: "returns_without_volume env_newImage_fails ign_file world_0 1
      (Errorf ''cannot open image'')"
    by simp
  from inst [where env = env_Size_fails and ign = ign_file and ignFile = "''/tmp/node1123456''"
      and l = "snd (createFile env_Size_fails ign_file (local world_0))"
      and err = "Errorf ''cannot stat image''"] found refreshed written newImage Size
  have c5: "returns_without_volume env_Size_fails ign_file world_0 1 (Errorf ''cannot stat image'')"
    by simp
  from inst [where env = env_Marshal_fails and ign = ign_file and ignFile = "''/tmp/node1123456''"
      and l = "snd (createFile env_Marshal_fails ign_file (local world_0))"
      and err = "Errorf ''xml: unsupported type''"] found refreshed written newImage Size Marshal
  have c6: "returns_without_volume env_Marshal_fails ign_file world_0 1
     (Errorf ''Error serializing libvirt volume: xml: unsupported type'')"
    by simp
  from lookup found refresh rejected written newImage Size Marshal c1 c2 c3 c4 c5 c6
  show ?thesis by simp
qed

text \<open>
  C8. When the volume has been created and the upload or the retrieval of the key fails, the
  function returns the error; the created volume is still among the host's volumes, and
  the calls made after the creation are the upload, the key retrieval if the upload went
  through, and the three releases (volume handle, lock, pool handle): none deletes the volume.
\<close>

theorem CreateAndUpload_no_rollback:
  assumes "ret_LookupStoragePoolByName env (PoolName ign) = Inr pool"
    and "ret_WaitForSuccess_Refresh env ''Error refreshing pool for volume'' pool = None"
    and "createFile env ign (local w) = ((ignFile, None), l)"
    and "ret_newImage env ignFile = Inr img"
    and "ret_Size env img = Inr sz"
    and "ret_Marshal env (volumeDef_for env ign sz) = Inr xml"
    and "ret_StorageVolCreateXML env pool xml = Inr volume"
  shows
    "(ret_Import env img volume sz (volumeDef_for env ign sz) = Some err \<longrightarrow>
        fst (CreateAndUpload env ign w) =
          ([], Some (Errorf (''Error while uploading ignition file '' @ ret_String env img @
                             '': '' @ Error err))) \<and>
        volumes (snd (CreateAndUpload env ign w)) = volumes w @ [(volume, pool, xml)] \<and>
        calls (snd (CreateAndUpload env ign w)) = calls w @
          [Call_LookupStoragePoolByName (PoolName ign), Call_Lock (PoolName ign),
           Call_Refresh pool, Call_StorageVolCreateXML pool xml,
           Call_Import img volume sz (volumeDef_for env ign sz),
           Call_StorageVol_Free volume,
           Call_Unlock (PoolName ign), Call_StoragePool_Free pool]) \<and>
     (ret_Import env img volume sz (volumeDef_for env ign sz) = None \<and>
      ret_GetKey env volume = Inl err \<longrightarrow>
        fst (CreateAndUpload env ign w) =
          ([], Some (Errorf (''Error retrieving volume key: '' @ Error err))) \<and>
        volumes (snd (CreateAndUpload env ign w)) = volumes w @ [(volume, pool, xml)] \<and>
        calls (snd (CreateAndUpload env ign w)) = calls w @
          [Call_LookupStoragePoolByName (PoolName ign), Call_Lock (PoolName ign),
           Call_Refresh pool, Call_StorageVolCreateXML pool xml,
           Call_Import img volume sz (volumeDef_for env ign sz),
           Call_GetKey volume, Call_StorageVol_Free volume,
           Call_Unlock (PoolName ign), Call_StoragePool_Free pool])"
  using assms by (simp add: run_Import_fails run_GetKey_fails)

theorem CreateAndUpload_no_rollback_witness:
  "ret_LookupStoragePoolByName env_Import_fails (PoolName ign_file) = Inr 1 \<and>
   ret_WaitForSuccess_Refresh env_Import_fails ''Error refreshing pool for volume'' 1 = None \<and>
   createFile env_Import_fails ign_file (local world_0) =
     ((''/tmp/node1123456'', None), snd (createFile env_Import_fails ign_file (local world_0))) \<and>
   ret_newImage env_Import_fails ''/tmp/node1123456'' = Inr 7 \<and>
   ret_Size env_Import_fails 7 = Inr 32 \<and>
   ret_Marshal env_Import_fails (volumeDef_for env_Import_fails ign_file 32) =
     Inr ''<volume>node1</volume>'' \<and>
   ret_StorageVolCreateXML env_Import_fails 1 ''<volume>node1</volume>'' = Inr 3 \<and>
   ret_Import env_Import_fails 7 3 32 (volumeDef_for env_Import_fails ign_file 32) =
     Some (Errorf ''stream aborted'') \<and>
   fst (CreateAndUpload env_Import_fails ign_file world_0) =
     ([], Some (Errorf ''Error while uploading ignition file ignition: stream aborted'')) \<and>
   volumes (snd (CreateAndUpload env_Import_fails ign_file world_0)) =
     [(3, 1, ''<volume>node1</volume>'')] \<and>
   calls (snd (CreateAndUpload env_Import_fails ign_file world_0)) =
     [Call_LookupStoragePoolByName ''default'', Call_Lock ''default'', Call_Refresh 1,
      Call_StorageVolCreateXML 1 ''<volume>node1</volume>'',
      Call_Import 7 3 32 (volumeDef_for env_Import_fails ign_file 32),
      Call_StorageVol_Free 3, Call_Unlock ''default'', Call_StoragePool_Free 1] \<and>
   ret_Import env_GetKey_fails 7 3 32 (volumeDef_for env_GetKey_fails ign_file 32) = None \<and>
   ret_GetKey env_GetKey_fails 3 = Inl (Errorf ''invalid storage volume'') \<and>
   fst (CreateAndUpload env_GetKey_fails ign_file world_0) =
     ([], Some (Errorf ''Error retrieving volume key: invalid storage volume'')) \<and>
   volumes (snd (CreateAndUpload env_GetKey_fails ign_file world_0)) =
     [(3, 1, ''<volume>node1</volume>'')] \<and>
   calls (snd (CreateAndUpload env_GetKey_fails ign_file world_0)) =
     [Call_LookupStoragePoolByName ''default'', Call_Lock ''default'', Call_Refresh 1,
      Call_StorageVolCreateXML 1 ''<volume>node1</volume>'',
      Call_Import 7 3 32 (volumeDef_for env_GetKey_fails ign_file 32),
      Call_GetKey 3, Call_StorageVol_Free 3, Call_Unlock ''default'',
      Call_StoragePool_Free 1]"
proof -
  have created: "ret_LookupStoragePoolByName env (PoolName ign_file) = Inr 1"
    "ret_WaitForSuccess_Refresh env ''Error refreshing pool for volume'' 1 = None"
    "createFile env ign_file (local world_0) =
       ((''/tmp/node1123456'', None), snd (createFile env ign_file (local world_0)))"
    "ret_newImage env ''/tmp/node1123456'' = Inr 7"
    "ret_Size env 7 = Inr 32"
    "ret_Marshal env (volumeDef_for env ign_file 32) = Inr ''<volume>node1</volume>''"
    "ret_StorageVolCreateXML env 1 ''<volume>node1</volume>'' = Inr 3"
    if "env \<in> {env_Import_fails, env_GetKey_fails}" for env
    using that by (auto simp add: prod_eq_iff file_defs sample_defs)
  have upload: "ret_Import env_Import_fails 7 3 32 (volumeDef_for env_Import_fails ign_file 32) =
      Some (Errorf ''stream aborted'')"
    by (simp add: sample_defs)
  have key: "ret_Import env_GetKey_fails 7 3 32 (volumeDef_for env_GetKey_fails ign_file 32) = None"
    "ret_GetKey env_GetKey_fails 3 = Inl (Errorf ''invalid storage volume'')"
    by (simp_all add: sample_defs)
  have sample: "PoolName ign_file = ''default''" "volumes world_0 = []" "calls world_0 = []"
    "ret_String env_Import_fails 7 = ''ignition''"
    by (simp_all add: sample_defs)
  from CreateAndUpload_no_rollback [OF created [of env_Import_fails],
      where err = "Errorf ''stream aborted''"] upload sample
  have c1: "fst (CreateAndUpload env_Import_fails ign_file world_0) =
     ([], Some (Errorf ''Error while uploading ignition file ignition: stream aborted'')) \<and>
   volumes (snd (CreateAndUpload env_Import_fails ign_file world_0)) =
     [(3, 1, ''<volume>node1</volume>'')] \<and>
   calls (snd (CreateAndUpload env_Import_fails ign_file world_0)) =
     [Call_LookupStoragePoolByName ''default'', Call_Lock ''default'', Call_Refresh 1,
      Call_StorageVolCreateXML 1 ''<volume>node1</volume>'',
      Call_Import 7 3 32 (volumeDef_for env_Import_fails ign_file 32),
      Call_StorageVol_Free 3, Call_Unlock ''default'', Call_StoragePool_Free 1]"
    by simp
  from CreateAndUpload_no_rollback [OF created [of env_GetKey_fails],
      where err = "Errorf ''invalid storage volume''"] key sample
  have c2: "fst (CreateAndUpload env_GetKey_fails ign_file world_0) =
     ([], Some (Errorf ''Error retrieving volume key: invalid storage volume'')) \<and>
   volumes (snd (CreateAndUpload env_GetKey_fails ign_file world_0)) =
     [(3, 1, ''<volume>node1</volume>'')] \<and>
   calls (snd (CreateAndUpload env_GetKey_fails ign_file world_0)) =
     [Call_LookupStoragePoolByName ''default'', Call_Lock ''default'', Call_Refresh 1,
      Call_StorageVolCreateXML 1 ''<volume>node1</volume>'',
      Call_Import 7 3 32 (volumeDef_for env_GetKey_fails ign_file 32),
      Call_GetKey 3, Call_StorageVol_Free 3, Call_Unlock ''default'',
      Call_StoragePool_Free 1]"
    by simp
  from created [of env_Import_fails] upload key c1 c2 show ?thesis
    by simp
qed

lemma snd_case_written:
  "snd (case x of ((n, None), l') \<Rightarrow> (a, l') | ((n, Some err), l') \<Rightarrow> (b, l')) = snd x"
  by (simp split: prod.splits option.splits)

lemma createFile_keeps_tmp:
  assumes "ret_TempFile env [] (defIgnition.Name ign) = Inr tempFile"
    and "files l tempFile = None"
  shows "tempFile \<in> dom (files (snd (createFile env ign l)))"
proof -
  let ?l0 = "log_Print ''Creating Ignition temporary file'' l"
  let ?l1 = "?l0\<lparr>files := (files ?l0)(tempFile \<mapsto> [])\<rparr>"
  from assms have tmp: "ioutil_TempFile env [] (defIgnition.Name ign) ?l0 = (Inr tempFile, ?l1)"
    by (simp add: ioutil_TempFile_Inr log_Print_def)
  have created: "tempFile \<in> dom (files ?l1)"
    by simp
  show ?thesis
  proof (cases "os_Stat (Content ign) ?l1")
    case None
    show ?thesis
    proof (cases "os_Open env (Content ign) ?l1")
      case (Inl err)
      with created show ?thesis
        unfolding createFile_file [OF tmp None] by simp
    next
      case (Inr ignFile)
      have "snd (createFile env ign l) = snd (io_Copy env tempFile ignFile ?l1)"
        unfolding createFile_file [OF tmp None] by (simp add: Inr snd_case_written)
      with created io_Copy_dom [of ?l1 env tempFile ignFile] show ?thesis
        by auto
    qed
  next
    case (Some err)
    show ?thesis
    proof (cases "ret_Unmarshal env (Content ign)")
      case None
      have "snd (createFile env ign l) = snd (WriteString env tempFile (Content ign) ?l1)"
        unfolding createFile_json [OF tmp Some None] by (simp add: snd_case_written)
      then show ?thesis
        by (simp only: WriteString_dom) simp
    next
      case (Some err_conf)
      with created show ?thesis
        unfolding createFile_invalid [OF tmp \<open>os_Stat (Content ign) ?l1 = Some err\<close> Some]
        by simp
    qed
  qed
qed

text \<open>
  C10. Once \<open>createFile\<close> has created its temporary file, a failure of \<open>createFile\<close>
  (whichever: payload neither file nor JSON, write, open or copy failure) leaves that file
  in place; and \<open>CreateAndUpload\<close>, which then returns the same error, leaves the local
  state exactly as \<open>createFile\<close> left it: nothing is removed.
\<close>

theorem createFile_failure_leaves_tmp:
  assumes "ret_TempFile env [] (defIgnition.Name ign) = Inr tempFile"
    and "files (local w) tempFile = None"
    and "createFile env ign (local w) = ((path, Some err), l)"
  shows "files l tempFile \<noteq> None \<and>
    (ret_LookupStoragePoolByName env (PoolName ign) = Inr pool \<and>
     ret_WaitForSuccess_Refresh env ''Error refreshing pool for volume'' pool = None \<longrightarrow>
       fst (CreateAndUpload env ign w) = ([], Some err) \<and>
       local (snd (CreateAndUpload env ign w)) = l)"
proof -
  from createFile_keeps_tmp [OF assms(1,2)] assms(3) have "files l tempFile \<noteq> None"
    by (simp add: domIff)
  with assms(3) show ?thesis
    by (simp add: run_createFile_fails)
qed

theorem createFile_failure_leaves_tmp_witness:
  "ret_TempFile env_ok [] (defIgnition.Name ign_neither) = Inr ''/tmp/node1123456'' \<and>
   files (local world_0) ''/tmp/node1123456'' = None \<and>
   createFile env_ok ign_neither (local world_0) =
     (([], Some (Errorf (''coreos_ignition 'content' is neither a file nor a valid json '' @
                         ''object not json and not a file''))),
      snd (createFile env_ok ign_neither (local world_0))) \<and>
   files (snd (createFile env_ok ign_neither (local world_0))) ''/tmp/node1123456'' \<noteq> None \<and>
   ret_LookupStoragePoolByName env_ok (PoolName ign_neither) = Inr 1 \<and>
   ret_WaitForSuccess_Refresh env_ok ''Error refreshing pool for volume'' 1 = None \<and>
   fst (CreateAndUpload env_ok ign_neither world_0) =
     ([], Some (Errorf (''coreos_ignition 'content' is neither a file nor a valid json '' @
                        ''object not json and not a file''))) \<and>
   local (snd (CreateAndUpload env_ok ign_neither world_0)) =
     snd (createFile env_ok ign_neither (local world_0)) \<and>
   ret_TempFile env_Copy_fails [] (defIgnition.Name ign_file) = Inr ''/tmp/node1123456'' \<and>
   createFile env_Copy_fails ign_file (local world_0) =
     (([], Some (Errorf (''Error copying supplied Igition file to temporary file: '' @
                         ''/tmp/ign.json''))),
      snd (createFile env_Copy_fails ign_file (local world_0))) \<and>
   files (snd (createFile env_Copy_fails ign_file (local world_0))) ''/tmp/node1123456'' \<noteq> None \<and>
   ret_LookupStoragePoolByName env_Copy_fails (PoolName ign_file) = Inr 1 \<and>
   ret_WaitForSuccess_Refresh env_Copy_fails ''Error refreshing pool for volume'' 1 = None \<and>
   fst (CreateAndUpload env_Copy_fails ign_file world_0) =
     ([], Some (Errorf (''Error copying supplied Igition file to temporary file: '' @
                        ''/tmp/ign.json''))) \<and>
   local (snd (CreateAndUpload env_Copy_fails ign_file world_0)) =
     snd (createFile env_Copy_fails ign_file (local world_0))"
proof -
  have fresh: "ret_TempFile env_ok [] (defIgnition.Name ign_neither) = Inr ''/tmp/node1123456''"
    "ret_TempFile env_Copy_fails [] (defIgnition.Name ign_file) = Inr ''/tmp/node1123456''"
    "files (local world_0) ''/tmp/node1123456'' = None"
    by (simp_all add: sample_defs)
  have rejected: "createFile env_ok ign_neither (local world_0) =
     (([], Some (Errorf (''coreos_ignition 'content' is neither a file nor a valid json '' @
                         ''object not json and not a file''))),
      snd (createFile env_ok ign_neither (local world_0)))"
    by (simp add: prod_eq_iff file_defs sample_defs)
  have cut: "createFile env_Copy_fails ign_file (local world_0) =
     (([], Some (Errorf (''Error copying supplied Igition file to temporary file: '' @
                         ''/tmp/ign.json''))),
      snd (createFile env_Copy_fails ign_file (local world_0)))"
    by (simp add: prod_eq_iff file_defs sample_defs)
  have locked: "ret_LookupStoragePoolByName env_ok (PoolName ign_neither) = Inr 1"
    "ret_WaitForSuccess_Refresh env_ok ''Error refreshing pool for volume'' 1 = None"
    "ret_LookupStoragePoolByName env_Copy_fails (PoolName ign_file) = Inr 1"
    "ret_WaitForSuccess_Refresh env_Copy_fails ''Error refreshing pool for volume'' 1 = None"
    by (simp_all add: sample_defs)
  from createFile_failure_leaves_tmp [OF fresh(1) fresh(3) rejected, where pool = 1]
    createFile_failure_leaves_tmp [OF fresh(2) fresh(3) cut, where pool = 1]
    fresh rejected cut locked
  show ?thesis by simp
qed

end
